theory Spec2Isabelle
  imports Complex_Main "HOL-Library.Product_Lexorder"
begin

section \<open>Conventions of the embedding\<close>

text \<open>
  The development embeds two services of the customer-service automation back end:
  \<^item> \<^verbatim>\<open>server/services/vector-embeddings-proper.ts\<close> (class
    \<^verbatim>\<open>ProperVectorEmbeddingsService\<close>), and
  \<^item> \<^verbatim>\<open>server/services/auto-responder.ts\<close> (class
    \<^verbatim>\<open>AutoResponderService\<close>).

  Conventions:
  \<^item> A thrown JavaScript exception is a value of type \<open>error\<close>; a computation that may
    throw returns \<open>error + 'a\<close> with \<open>Inl\<close> for the exception. A
    \<^verbatim>\<open>try { ... } catch\<close> block is a case distinction on that sum.
  \<^item> Similarities and embedding coordinates are numbers of the language, the doubles of
    IEEE 754 with their rounding, their infinities and \<open>NaN\<close> (type \<open>jsnumber\<close>).
  \<^item> Confidences and sentiment scores are percentages; they are integers (\<open>int\<close>) as in the
    data model of the specification, so \<^verbatim>\<open>Math.round\<close> is the identity on them.
  \<^item> Strings are lists of characters; \<^verbatim>\<open>s.length\<close> is \<open>length s\<close>.
  \<^item> The services that are imported by the two services but are not part of them (the
    OpenAI client, the grounding, sentiment, content-safety and delivery services, the
    category handlers) are parameters: an environment record holds the answer of each of
    them. The tables of the storage layer and the record of the deliveries are an explicit
    state, passed in and returned.
\<close>

datatype error =
    Thrown string            \<comment> \<open>\<^verbatim>\<open>throw new Error(msg)\<close>, or a rejected collaborator call\<close>
  | ReferenceError string    \<comment> \<open>evaluation of an identifier that no scope binds\<close>

section \<open>Numbers\<close>

text \<open>
  A number of the language is a double of IEEE 754 (binary64). \<open>Finite s m\<close> is the finite
  double of sign \<open>s\<close> (\<open>True\<close> for the negative sign) and magnitude \<open>m\<close>, a real number
  that is not negative; \<open>Finite False 0\<close> and \<open>Finite True 0\<close> are the two zeros.
  \<open>Infinity s\<close> are the two infinities and \<open>NaN\<close> is the value of an invalid operation.

  An operation on finite doubles computes the exact real result and rounds it to the
  nearest double, a tie to the one whose last binary digit is even
  (\<open>roundToDouble\<close>). The doubles around a magnitude \<open>x\<close> are the multiples of \<open>ulp x\<close>:
  53 binary digits at the binary exponent of \<open>x\<close>, which is not below \<open>- 1022\<close> (below
  \<open>2 powi (- 1022)\<close> the doubles are the multiples of \<open>2 powi (- 1074)\<close>, and a magnitude
  below half of that rounds to zero). A result that rounds to \<open>2 ^ 1024\<close> or more is an
  infinity.
\<close>

datatype jsnumber = Finite bool real | Infinity bool | NaN

definition roundHalfEven :: "real \<Rightarrow> int" where
  "roundHalfEven t =
     (let f = \<lfloor>t\<rfloor>
      in if t - of_int f < 1 / 2 then f
         else if t - of_int f > 1 / 2 then f + 1
         else if even f then f else f + 1)"

definition exponentOf :: "real \<Rightarrow> int" where
  "exponentOf x = max \<lfloor>log 2 x\<rfloor> (- 1022)"

definition ulp :: "real \<Rightarrow> real" where
  "ulp x = 2 powi (exponentOf x - 52)"

definition roundToDouble :: "bool \<Rightarrow> real \<Rightarrow> jsnumber" where
  "roundToDouble negative x =
     (if x = 0 then Finite negative 0
      else
        (let y = ulp x * of_int (roundHalfEven (x / ulp x))
         in if y \<ge> 2 ^ 1024 then Infinity negative else Finite negative y))"

text \<open>
  The real number that a finite double denotes, the double that a decimal literal of the
  source denotes (the nearest one), the literal \<^verbatim>\<open>0\<close>, and the double of a count.
\<close>

definition valueOf :: "bool \<Rightarrow> real \<Rightarrow> real" where
  "valueOf negative m = (if negative then - m else m)"

definition numberLiteral :: "real \<Rightarrow> jsnumber" where
  "numberLiteral x = roundToDouble (x < 0) \<bar>x\<bar>"

definition positiveZero :: jsnumber where
  "positiveZero = Finite False 0"


text \<open>
  The operators \<^verbatim>\<open>*\<close>, \<^verbatim>\<open>+\<close> and \<^verbatim>\<open>/\<close>, and \<^verbatim>\<open>Math.sqrt\<close> (the square root
  instruction of the processor, which rounds to the nearest double). The sign of a product
  and of a quotient is the exclusive or of the signs; a sum that is exactly zero is the
  negative zero only if both summands are negative.
\<close>

fun js_mul :: "jsnumber \<Rightarrow> jsnumber \<Rightarrow> jsnumber" where
  "js_mul NaN y = NaN"
| "js_mul x NaN = NaN"
| "js_mul (Infinity s) (Infinity t) = Infinity (s \<noteq> t)"
| "js_mul (Infinity s) (Finite t n) = (if n = 0 then NaN else Infinity (s \<noteq> t))"
| "js_mul (Finite s m) (Infinity t) = (if m = 0 then NaN else Infinity (s \<noteq> t))"
| "js_mul (Finite s m) (Finite t n) = roundToDouble (s \<noteq> t) (m * n)"

fun js_add :: "jsnumber \<Rightarrow> jsnumber \<Rightarrow> jsnumber" where
  "js_add NaN y = NaN"
| "js_add x NaN = NaN"
| "js_add (Infinity s) (Infinity t) = (if s = t then Infinity s else NaN)"
| "js_add (Infinity s) (Finite t n) = Infinity s"
| "js_add (Finite s m) (Infinity t) = Infinity t"
| "js_add (Finite s m) (Finite t n) =
     (let v = valueOf s m + valueOf t n
      in if v = 0 then Finite (s \<and> t) 0 else roundToDouble (v < 0) \<bar>v\<bar>)"

fun js_div :: "jsnumber \<Rightarrow> jsnumber \<Rightarrow> jsnumber" where
  "js_div NaN y = NaN"
| "js_div x NaN = NaN"
| "js_div (Infinity s) (Infinity t) = NaN"
| "js_div (Infinity s) (Finite t n) = Infinity (s \<noteq> t)"
| "js_div (Finite s m) (Infinity t) = Finite (s \<noteq> t) 0"
| "js_div (Finite s m) (Finite t n) =
     (if n = 0 then (if m = 0 then NaN else Infinity (s \<noteq> t))
      else roundToDouble (s \<noteq> t) (m / n))"

fun js_sqrt :: "jsnumber \<Rightarrow> jsnumber" where
  "js_sqrt NaN = NaN"
| "js_sqrt (Infinity s) = (if s then NaN else Infinity False)"
| "js_sqrt (Finite s m) =
     (if m = 0 then Finite s 0 else if s then NaN else roundToDouble False (sqrt m))"


fun js_ge :: "jsnumber \<Rightarrow> jsnumber \<Rightarrow> bool" where
  "js_ge NaN y = False"
| "js_ge x NaN = False"
| "js_ge (Infinity s) (Infinity t) = (\<not> s \<or> t)"
| "js_ge (Infinity s) (Finite t n) = (\<not> s)"
| "js_ge (Finite s m) (Infinity t) = t"
| "js_ge (Finite s m) (Finite t n) = (valueOf s m \<ge> valueOf t n)"

fun js_strictEquals :: "jsnumber \<Rightarrow> jsnumber \<Rightarrow> bool" where
  "js_strictEquals NaN y = False"
| "js_strictEquals x NaN = False"
| "js_strictEquals (Infinity s) (Infinity t) = (s = t)"
| "js_strictEquals (Infinity s) (Finite t n) = False"
| "js_strictEquals (Finite s m) (Infinity t) = False"
| "js_strictEquals (Finite s m) (Finite t n) = (valueOf s m = valueOf t n)"

definition isZero :: "jsnumber \<Rightarrow> bool" where
  "isZero x = js_strictEquals x positiveZero"

section \<open>Vector embeddings service\<close>

subsection \<open>calculateCosineSimilarity\<close>

text \<open>
  \<^verbatim>\<open>
  private calculateCosineSimilarity(vectorA: number[], vectorB: number[]): number {
    if (vectorA.length !== vectorB.length) {
      throw new Error('Vector dimensions must match');
    }
    let dotProduct = 0; let normA = 0; let normB = 0;
    for (let i = 0; i < vectorA.length; i++) {
      dotProduct += vectorA[i] * vectorB[i];
      normA += vectorA[i] * vectorA[i];
      normB += vectorB[i] * vectorB[i];
    }
    normA = Math.sqrt(normA);
    normB = Math.sqrt(normB);
    return normA === 0 || normB === 0 ? 0 : dotProduct / (normA * normB);
  }
  \<close>
  The loop is the recursion \<open>cosineLoop\<close> on the index \<open>i\<close>, with the three accumulators
  as a triple.
\<close>

function cosineLoop ::
  "jsnumber list \<Rightarrow> jsnumber list \<Rightarrow> nat \<Rightarrow> jsnumber \<times> jsnumber \<times> jsnumber
     \<Rightarrow> jsnumber \<times> jsnumber \<times> jsnumber" where
  "cosineLoop vectorA vectorB i (dotProduct, normA, normB) =
     (if i < length vectorA
      then cosineLoop vectorA vectorB (i + 1)
             (js_add dotProduct (js_mul (vectorA ! i) (vectorB ! i)),
              js_add normA (js_mul (vectorA ! i) (vectorA ! i)),
              js_add normB (js_mul (vectorB ! i) (vectorB ! i)))
      else (dotProduct, normA, normB))"
  by pat_completeness auto
termination
  by (relation "measure (\<lambda>(vectorA, vectorB, i, acc). length vectorA - i)") auto

declare cosineLoop.simps [simp del]

definition calculateCosineSimilarity :: "jsnumber list \<Rightarrow> jsnumber list \<Rightarrow> error + jsnumber" where
  "calculateCosineSimilarity vectorA vectorB =
     (if length vectorA \<noteq> length vectorB then Inl (Thrown ''Vector dimensions must match'')
      else
        (case cosineLoop vectorA vectorB 0 (positiveZero, positiveZero, positiveZero) of
           (dotProduct, sumA, sumB) \<Rightarrow>
             let normA = js_sqrt sumA; normB = js_sqrt sumB
             in Inr (if js_strictEquals normA positiveZero \<or> js_strictEquals normB positiveZero
                     then positiveZero
                     else js_div dotProduct (js_mul normA normB))))"

subsection \<open>Norm and dot product\<close>

text \<open>
  The quantities that the loop accumulates, each as a sum from left to right in the
  arithmetic of the doubles: the sum of the squares of a vector, its norm, and the dot
  product of two vectors.
\<close>

definition sumOfSquares :: "jsnumber list \<Rightarrow> jsnumber" where
  "sumOfSquares v = foldl (\<lambda>acc x. js_add acc (js_mul x x)) positiveZero v"

definition euclideanNorm :: "jsnumber list \<Rightarrow> jsnumber" where
  "euclideanNorm v = js_sqrt (sumOfSquares v)"

definition dotProductOf :: "jsnumber list \<Rightarrow> jsnumber list \<Rightarrow> jsnumber" where
  "dotProductOf a b = foldl (\<lambda>acc (x, y). js_add acc (js_mul x y)) positiveZero (zip a b)"

subsection \<open>The values of sums of squares and of norms\<close>

text \<open>
  \<open>MIN_VALUE\<close> is the least positive double, \<^verbatim>\<open>Number.MIN_VALUE\<close>. A sum of squares is
  \<open>NaN\<close>, the positive infinity, the positive zero or a positive double, which is
  \<open>MIN_VALUE\<close> at least (\<open>sumValue\<close>); its square root is \<open>NaN\<close>, the positive infinity, the
  positive zero or a double that is at least the square root of \<open>MIN_VALUE\<close>
  (\<open>normValue\<close>).
\<close>

definition MIN_VALUE :: real where
  "MIN_VALUE = 2 powi (- 1074)"

fun sumValue :: "jsnumber \<Rightarrow> bool" where
  "sumValue NaN = True"
| "sumValue (Infinity s) = (s = False)"
| "sumValue (Finite s m) = (s = False \<and> (m = 0 \<or> MIN_VALUE \<le> m))"

fun normValue :: "jsnumber \<Rightarrow> bool" where
  "normValue NaN = True"
| "normValue (Infinity s) = (s = False)"
| "normValue (Finite s m) = (s = False \<and> (m = 0 \<or> 2 powi (- 537) \<le> m))"

subsection \<open>chunkContent and createCacheKey\<close>












subsection \<open>generateEmbedding\<close>



subsection \<open>semanticSearch\<close>



datatype qualityLevel = quality_high | quality_balanced | quality_exploratory


record SearchHit =
  hit_content :: string
  hit_url :: string
  hit_similarity :: jsnumber
  hit_chunk :: "string option"




text \<open>
  The loop over the completed sources:
  \<^verbatim>\<open>
  for (const urlData of completedUrls) {
    if (!urlData.crawledContent) continue;
    try {
      const chunks = urlData.crawledContent.length > 1000
        ? this.chunkContent(urlData.crawledContent) : [urlData.crawledContent];
      ... inner loop ...
      if (bestSimilarity >= threshold) {
        results.push({ content: urlData.crawledContent, url: urlData.url as string,
          similarity: bestSimilarity,
          chunk: bestChunk !== urlData.crawledContent ? bestChunk : undefined });
      }
    } catch (error) { console.error(...); continue; }
  }
  \<close>
\<close>

definition truthy :: "string option \<Rightarrow> bool" where
  "truthy s = (case s of None \<Rightarrow> False | Some t \<Rightarrow> t \<noteq> [])"



text \<open>
  \<^verbatim>\<open>
  async semanticSearch(userId: string, query: string,
      qualityLevel: 'high' | 'balanced' | 'exploratory' = 'balanced') {
    const threshold = this.SIMILARITY_THRESHOLDS[
      qualityLevel === 'high' ? 'HIGH_QUALITY' :
      qualityLevel === 'exploratory' ? 'EXPLORATORY' : 'BALANCED'];
    try {
      const trainingUrls = await storage.getTrainingUrls(userId);
      if (!trainingUrls || trainingUrls.length === 0) {
        return { results: [], threshold, totalSources: 0 };
      }
      const completedUrls = trainingUrls.filter(url =>
        url.status === 'completed' && url.crawledContent && url.crawledContent.length > 100);
      if (completedUrls.length === 0) { return { results: [], threshold, totalSources: 0 }; }
      const queryEmbedding = await this.generateEmbedding(query);
      const results = [];
      ... loop over completedUrls ...
      results.sort((a, b) => b.similarity - a.similarity);
      return { results: results.slice(0, 5), threshold, totalSources: completedUrls.length };
    } catch (error) {
      return { results: [], threshold, totalSources: 0 };
    }
  }
  \<close>
  An omitted \<^verbatim>\<open>qualityLevel\<close> is \<open>None\<close>; the three literals are the constructors
  \<open>quality_high\<close>, \<open>quality_balanced\<close> and \<open>quality_exploratory\<close>.

  \<^verbatim>\<open>Array.prototype.sort\<close> is stable. The comparator \<^verbatim>\<open>b.similarity - a.similarity\<close> is
  negative, zero or positive as \<^verbatim>\<open>b.similarity\<close> is less than, equal to or greater than
  \<^verbatim>\<open>a.similarity\<close>: the difference of two finite doubles keeps its sign in the rounding
  and is zero only if they are equal, and two equal infinities give \<open>NaN\<close>, which the
  sort takes for zero. So the sort is the stable sort in the descending order of the
  similarities, \<open>sort_key\<close> on the key \<open>descendingKey\<close>, whose first component orders the
  positive infinity, the finite doubles and the negative infinity and whose second
  component orders the finite doubles. Only a similarity that is at least the threshold
  enters the array, and \<open>NaN\<close> is not; its key is of no consequence.
\<close>

fun descendingKey :: "jsnumber \<Rightarrow> int \<times> real" where
  "descendingKey (Infinity s) = (if s then (1, 0) else (- 1, 0))"
| "descendingKey (Finite s m) = (0, - valueOf s m)"
| "descendingKey NaN = (2, 0)"




definition sortBySimilarity :: "SearchHit list \<Rightarrow> SearchHit list" where
  "sortBySimilarity results = sort_key (\<lambda>h. descendingKey (hit_similarity h)) results"




section \<open>Auto-responder service\<close>

subsection \<open>Strings and numbers\<close>

text \<open>
  \<^verbatim>\<open>s.startsWith(p)\<close>, \<^verbatim>\<open>s.endsWith(p)\<close> and \<^verbatim>\<open>s.includes(p)\<close>; an anchored
  regular expression of literal characters is one of the first two, an unanchored one the
  third.
\<close>

fun startsWith :: "string \<Rightarrow> string \<Rightarrow> bool" where
  "startsWith s [] = True"
| "startsWith [] (p # ps) = False"
| "startsWith (c # cs) (p # ps) = (c = p \<and> startsWith cs ps)"

definition endsWith :: "string \<Rightarrow> string \<Rightarrow> bool" where
  "endsWith s p = startsWith (rev s) (rev p)"

fun str_includes :: "string \<Rightarrow> string \<Rightarrow> bool" where
  "str_includes [] p = (p = [])"
| "str_includes (c # cs) p = (startsWith (c # cs) p \<or> str_includes cs p)"

text \<open>The flag \<^verbatim>\<open>i\<close> of a regular expression: both sides are compared in lower case.
  Only the letters A to Z have a lower-case partner among the characters below 128, and a
  character from 128 on never matches one below.\<close>

definition toLowerChar :: "char \<Rightarrow> char" where
  "toLowerChar c =
     (case map_of (zip ''ABCDEFGHIJKLMNOPQRSTUVWXYZ'' ''abcdefghijklmnopqrstuvwxyz'') c of
        None \<Rightarrow> c
      | Some l \<Rightarrow> l)"

definition toLowerCase :: "string \<Rightarrow> string" where
  "toLowerCase s = map toLowerChar s"

definition isDigit :: "char \<Rightarrow> bool" where
  "isDigit c = (c \<in> set ''0123456789'')"

text \<open>The conversion of a number to a string in a template literal, for the integers: the
  decimal digits, after a minus sign for a negative number.\<close>

function digitsOf :: "nat \<Rightarrow> string" where
  "digitsOf n =
     (if n < 10 then [''0123456789'' ! n]
      else digitsOf (n div 10) @ [''0123456789'' ! (n mod 10)])"
  by pat_completeness auto
termination
  by (relation "measure id") auto

declare digitsOf.simps [simp del]

definition numberToString :: "int \<Rightarrow> string" where
  "numberToString n = (if n < 0 then CHR ''-'' # digitsOf (nat (- n)) else digitsOf (nat n))"

subsection \<open>Data of the pipeline\<close>

text \<open>
  \<^verbatim>\<open>
  export interface ClassificationResult {
    classification: string; confidence: number; reasoning: string;
    priority?: 'low' | 'medium' | 'high' | 'urgent'; priorityReasoning?: string; }
  export interface ProcessedEmail {
    id: string; classification: string; confidence: number; autoResponseSent: boolean;
    escalated: boolean; ruleUsed?: string; awaitingApproval?: boolean; }
  \<close>
  The fields of each object carry a prefix (\<open>cr_\<close>, \<open>pe_\<close>, \<open>ed_\<close>, ...) in front of
  their name in the source. An optional field is an \<open>option\<close>. Identifiers that the storage
  layer generates are natural numbers.
\<close>

datatype priority = low | medium | high | urgent

record ClassificationResult =
  cr_classification :: string
  cr_confidence :: int
  cr_reasoning :: string
  cr_priority :: "priority option"
  cr_priorityReasoning :: "string option"

record ProcessedEmail =
  pe_id :: nat
  pe_classification :: string
  pe_confidence :: int
  pe_autoResponseSent :: bool
  pe_escalated :: bool
  pe_ruleUsed :: "string option"
  pe_awaitingApproval :: "bool option"

text \<open>The argument \<^verbatim>\<open>emailData\<close> of \<^verbatim>\<open>processIncomingEmail\<close>.\<close>

record EmailData =
  ed_fromEmail :: string
  ed_toEmail :: string
  ed_subject :: string
  ed_body :: string
  ed_messageId :: "string option"

text \<open>The answer of \<^verbatim>\<open>sentimentAnalysisService.analyzeSentiment\<close>, as far as the
  service reads it: \<^verbatim>\<open>sentiment\<close>, \<^verbatim>\<open>scores.negative\<close> and \<^verbatim>\<open>confidence\<close>.\<close>

record SentimentResult =
  sa_sentiment :: string
  sa_negative :: "int option"
  sa_confidence :: "int option"

text \<open>An automation rule and the system settings of an account, as far as the service
  reads them.\<close>

record Rule =
  rule_id :: nat
  rule_userId :: string
  rule_name :: string
  rule_classification :: string
  rule_isActive :: bool
  rule_template :: string
  rule_triggerCount :: "nat option"

record Settings =
  automationApprovalRequired :: "bool option"

subsection \<open>The storage layer and the delivery channel\<close>

text \<open>
  Modelled from the spec: the module \<^verbatim>\<open>../storage\<close> and the service
  \<^verbatim>\<open>emailRoutingService\<close> are imported by the auto-responder and are not part of it. The
  specification describes the storage interface as "create/update Message; list/get
  account rules, settings; create ApprovalQueueItem, EscalationQueueItem,
  ActivityLogEntry; all keyed by account id" and the delivery channel as
  "send(accountId, to, subject, body)". The tables are lists in insertion order; a created
  Message gets the next free identifier; an update changes the row with the given
  identifier and leaves the other rows alone. \<open>deliveries\<close> records every call of the
  delivery channel.

  \<open>createEmail\<close> is the creation of a Message in a store that accepts it: the row is
  appended. The specification requires of the persistent stores "uniqueness constraints on
  external message identifiers" and calls the identifier of a Message its "unique external
  message identifier": \<open>uniqueCreateEmail\<close> is the call \<^verbatim>\<open>storage.createEmail\<close> on a
  store that enforces the constraint. It throws, and leaves the table as it is, when a
  stored Message carries the identifier of the new one; otherwise it is \<open>createEmail\<close>.
  The other calls of the storage layer return (they do not throw).
\<close>

record Email =
  em_id :: nat
  em_userId :: string
  em_fromEmail :: string
  em_toEmail :: string
  em_subject :: string
  em_body :: string
  em_status :: string
  em_messageId :: "string option"
  em_classification :: "string option"
  em_confidence :: "int option"
  em_classificationReasoning :: "string option"
  em_escalationReason :: "string option"
  em_isResponded :: bool
  em_aiResponse :: "string option"
  em_awaitingApproval :: bool
  em_ruleId :: "nat option"

record EscalationQueueItem =
  eq_emailId :: nat
  eq_userId :: string
  eq_priority :: priority
  eq_reason :: string
  eq_status :: string

record ApprovalItem =
  ap_userId :: string
  ap_emailId :: nat
  ap_ruleId :: nat
  ap_customerEmail :: string
  ap_subject :: string
  ap_body :: string
  ap_classification :: string
  ap_confidence :: int
  ap_proposedResponse :: string
  ap_status :: string

record ActivityLog =
  al_userId :: string
  al_action :: string
  al_type :: string
  al_executedBy :: string
  al_customerEmail :: string
  al_details :: string
  al_status :: string

record Delivery =
  dl_userId :: string
  dl_to :: string
  dl_subject :: string
  dl_html :: string

record State =
  emails :: "Email list"
  autoResponderRules :: "Rule list"
  systemSettings :: "string \<rightharpoonup> Settings"
  escalationQueue :: "EscalationQueueItem list"
  approvalItems :: "ApprovalItem list"
  activityLogs :: "ActivityLog list"
  deliveries :: "Delivery list"

definition createEmail :: "State \<Rightarrow> string \<Rightarrow> EmailData \<Rightarrow> string \<Rightarrow> Email \<times> State" where
  "createEmail s userId emailData status =
     (let email =
        \<lparr>em_id = length (emails s), em_userId = userId,
         em_fromEmail = ed_fromEmail emailData, em_toEmail = ed_toEmail emailData,
         em_subject = ed_subject emailData, em_body = ed_body emailData,
         em_status = status, em_messageId = ed_messageId emailData,
         em_classification = None, em_confidence = None,
         em_classificationReasoning = None, em_escalationReason = None,
         em_isResponded = False, em_aiResponse = None,
         em_awaitingApproval = False, em_ruleId = None\<rparr>
      in (email, s\<lparr>emails := emails s @ [email]\<rparr>))"



definition updateEmail :: "State \<Rightarrow> nat \<Rightarrow> (Email \<Rightarrow> Email) \<Rightarrow> State" where
  "updateEmail s emailId change =
     s\<lparr>emails := map (\<lambda>e. if em_id e = emailId then change e else e) (emails s)\<rparr>"

definition getEmail :: "State \<Rightarrow> nat \<Rightarrow> Email option" where
  "getEmail s emailId = find (\<lambda>e. em_id e = emailId) (emails s)"

definition getAutoResponderRules :: "State \<Rightarrow> string \<Rightarrow> Rule list" where
  "getAutoResponderRules s userId = filter (\<lambda>r. rule_userId r = userId) (autoResponderRules s)"

definition updateAutoResponderRule :: "State \<Rightarrow> nat \<Rightarrow> (Rule \<Rightarrow> Rule) \<Rightarrow> State" where
  "updateAutoResponderRule s ruleId change =
     s\<lparr>autoResponderRules :=
         map (\<lambda>r. if rule_id r = ruleId then change r else r) (autoResponderRules s)\<rparr>"

definition getSystemSettings :: "State \<Rightarrow> string \<Rightarrow> Settings option" where
  "getSystemSettings s userId = systemSettings s userId"

definition createEscalationQueue :: "State \<Rightarrow> EscalationQueueItem \<Rightarrow> State" where
  "createEscalationQueue s item = s\<lparr>escalationQueue := escalationQueue s @ [item]\<rparr>"

definition createAutomationApprovalItem :: "State \<Rightarrow> ApprovalItem \<Rightarrow> State" where
  "createAutomationApprovalItem s item = s\<lparr>approvalItems := approvalItems s @ [item]\<rparr>"

definition createActivityLog :: "State \<Rightarrow> ActivityLog \<Rightarrow> State" where
  "createActivityLog s entry = s\<lparr>activityLogs := activityLogs s @ [entry]\<rparr>"

subsection \<open>The collaborators\<close>

text \<open>
  The services that the auto-responder calls and that are not part of it. Each field is the
  answer of one call: \<open>Inl\<close> when the call throws (or its promise rejects), \<open>Inr\<close> with
  the fields of the answer that the auto-responder reads otherwise.
  \<^item> \<open>linkEmailToThread\<close>: \<^verbatim>\<open>ThreadContextService.linkEmailToThread\<close>.
  \<^item> \<open>classifyWithGrounding\<close>: \<^verbatim>\<open>hallucinationPreventionService.classifyWithGrounding\<close>.
  \<^item> \<open>chatCompletion\<close>: \<^verbatim>\<open>openai.chat.completions.create\<close> on the prompt built from the
    subject and the content, followed by \<^verbatim>\<open>JSON.parse\<close> of the first choice (an empty
    content parses as the empty object; a failing parse is an exception). The fields of the
    parsed object have the types the prompt asks for.
  \<^item> \<open>analyzeSentiment\<close>: \<^verbatim>\<open>sentimentAnalysisService.analyzeSentiment\<close>.
  \<^item> \<open>empatheticGenerate\<close>: the statements of \<^verbatim>\<open>generateProposedResponse\<close> up to and
    including \<^verbatim>\<open>empatheticResponseGenerator.generateResponse\<close> (settings, response
    context, thread context); \<open>generateAIAgentSignature\<close>: the signature service.
  \<^item> \<open>validateResponse\<close>: \<^verbatim>\<open>contentSafetyService.validateResponse\<close>;
    \<open>sendEmail\<close>: \<^verbatim>\<open>emailRoutingService.sendEmail\<close>.
  \<^item> \<open>processEnhancedPromoRefund\<close>, \<open>processPromoRefund\<close>,
    \<open>initiateCancellationWorkflow\<close>, \<open>initiateAddressChangeWorkflow\<close>: the handlers of the
    three categories that have a workflow of their own; only their outcome is modelled.
\<close>

record CompletionJson =
  cj_classification :: "string option"
  cj_confidence :: "int option"
  cj_reasoning :: "string option"
  cj_priority :: "priority option"
  cj_priorityReasoning :: "string option"

record EmpatheticResponse =
  er_body :: string
  er_confidenceScore :: int

record SafetyValidation =
  sv_approved :: bool
  sv_blockReason :: "string option"

record EnhancedResult =
  en_success :: bool
  en_shouldEscalate :: bool

record Env =
  linkEmailToThread :: "nat \<Rightarrow> string \<Rightarrow> string \<Rightarrow> string \<Rightarrow> error + unit"
  classifyWithGrounding :: "string \<Rightarrow> string \<Rightarrow> string \<Rightarrow> error + ClassificationResult"
  chatCompletion :: "string \<Rightarrow> string \<Rightarrow> error + CompletionJson"
  analyzeSentiment :: "string \<Rightarrow> error + SentimentResult"
  empatheticGenerate :: "Rule \<Rightarrow> EmailData \<Rightarrow> string \<Rightarrow> error + EmpatheticResponse"
  generateAIAgentSignature :: "string \<Rightarrow> error + string"
  validateResponse :: "string \<Rightarrow> string \<Rightarrow> error + SafetyValidation"
  sendEmail :: "string \<Rightarrow> Delivery \<Rightarrow> error + bool"
  processEnhancedPromoRefund :: "nat \<Rightarrow> EmailData \<Rightarrow> string \<Rightarrow> error + EnhancedResult"
  processPromoRefund :: "nat \<Rightarrow> string \<Rightarrow> string \<Rightarrow> Rule \<Rightarrow> error + bool"
  initiateCancellationWorkflow :: "string \<Rightarrow> nat \<Rightarrow> EmailData \<Rightarrow> error + bool"
  initiateAddressChangeWorkflow :: "string \<Rightarrow> nat \<Rightarrow> EmailData \<Rightarrow> error + bool"

subsection \<open>classifyEmail\<close>

text \<open>
  \<^verbatim>\<open>
  async classifyEmail(emailContent: string, subject: string, userId?: string) {
    try {
      const prompt = `...`;
      if (userId) {
        const groundedResult = await hallucinationPreventionService.classifyWithGrounding(
          userId, emailContent, subject);
        return { classification: groundedResult.classification,
          confidence: groundedResult.confidence,
          reasoning: `Vector-enhanced: ${groundedResult.reasoning}`,
          priority: groundedResult.priority,
          priorityReasoning: groundedResult.priorityReasoning };
      }
      const response = await openai.chat.completions.create({...});
      const result = JSON.parse(response.choices[0].message.content || '{}');
      return { classification: result.classification || 'general',
        confidence: Math.max(0, Math.min(100, result.confidence || 50)),
        reasoning: result.reasoning || 'AI classification result',
        priority: result.priority || 'medium',
        priorityReasoning: result.priorityReasoning || 'Standard priority assignment' };
    } catch (error) {
      console.error('Email classification error:', error);
      return { classification: 'general', confidence: 30,
        reasoning: 'Classification failed, defaulting to general',
        priority: 'medium', priorityReasoning: 'Default priority due to classification failure' };
    }
  }
  \<close>
  \<open>classifyEmail_try\<close> is the \<^verbatim>\<open>try\<close> block, \<open>classifyEmail\<close> the method. The operator
  \<^verbatim>\<open>||\<close> takes its right side when the left one is undefined, empty or zero.
\<close>

definition orDefault :: "string option \<Rightarrow> string \<Rightarrow> string" where
  "orDefault v d = (case v of None \<Rightarrow> d | Some t \<Rightarrow> if t = [] then d else t)"

definition orNumber :: "int option \<Rightarrow> int \<Rightarrow> int" where
  "orNumber v d = (case v of None \<Rightarrow> d | Some n \<Rightarrow> if n = 0 then d else n)"

definition classifyEmail_try ::
  "Env \<Rightarrow> string \<Rightarrow> string \<Rightarrow> string option \<Rightarrow> error + ClassificationResult" where
  "classifyEmail_try env emailContent subject userId =
     (if truthy userId
      then
        (case classifyWithGrounding env (orDefault userId []) emailContent subject of
           Inl err \<Rightarrow> Inl err
         | Inr groundedResult \<Rightarrow>
             Inr \<lparr>cr_classification = cr_classification groundedResult,
                  cr_confidence = cr_confidence groundedResult,
                  cr_reasoning = ''Vector-enhanced: '' @ cr_reasoning groundedResult,
                  cr_priority = cr_priority groundedResult,
                  cr_priorityReasoning = cr_priorityReasoning groundedResult\<rparr>)
      else
        (case chatCompletion env subject emailContent of
           Inl err \<Rightarrow> Inl err
         | Inr result \<Rightarrow>
             Inr \<lparr>cr_classification = orDefault (cj_classification result) ''general'',
                  cr_confidence = max 0 (min 100 (orNumber (cj_confidence result) 50)),
                  cr_reasoning = orDefault (cj_reasoning result) ''AI classification result'',
                  cr_priority =
                    Some (case cj_priority result of None \<Rightarrow> medium | Some p \<Rightarrow> p),
                  cr_priorityReasoning =
                    Some (orDefault (cj_priorityReasoning result)
                            ''Standard priority assignment'')\<rparr>))"

definition classifyEmail ::
  "Env \<Rightarrow> string \<Rightarrow> string \<Rightarrow> string option \<Rightarrow> error + ClassificationResult" where
  "classifyEmail env emailContent subject userId =
     (case classifyEmail_try env emailContent subject userId of
        Inl err \<Rightarrow>
          Inr \<lparr>cr_classification = ''general'', cr_confidence = 30,
               cr_reasoning = ''Classification failed, defaulting to general'',
               cr_priority = Some medium,
               cr_priorityReasoning = Some ''Default priority due to classification failure''\<rparr>
      | Inr classification \<Rightarrow> Inr classification)"

text \<open>The degraded result in the words of the specification: category general, confidence
  30, priority medium (with the two explanations of the source).\<close>

definition degradedResult :: ClassificationResult where
  "degradedResult =
     \<lparr>cr_classification = ''general'', cr_confidence = 30,
      cr_reasoning = ''Classification failed, defaulting to general'',
      cr_priority = Some medium,
      cr_priorityReasoning = Some ''Default priority due to classification failure''\<rparr>"

subsection \<open>findMatchingRule\<close>

text \<open>
  \<^verbatim>\<open>
  async findMatchingRule(userId: string, classification: string, confidence: number) {
    const rules = await storage.getAutoResponderRules(userId);
    let matchingRule = rules.find((rule: any) =>
      rule.classification === classification && rule.isActive);
    if (!matchingRule && confidence < 70) {
      matchingRule = rules.find((rule: any) =>
        rule.classification === 'general' && rule.isActive);
    }
    return matchingRule;
  }
  \<close>
\<close>

definition findMatchingRule :: "State \<Rightarrow> string \<Rightarrow> string \<Rightarrow> int \<Rightarrow> Rule option" where
  "findMatchingRule s userId classification confidence =
     (let rules = getAutoResponderRules s userId;
          matchingRule =
            find (\<lambda>rule. rule_classification rule = classification \<and> rule_isActive rule) rules
      in if matchingRule = None \<and> confidence < 70
         then find (\<lambda>rule. rule_classification rule = ''general'' \<and> rule_isActive rule) rules
         else matchingRule)"

subsection \<open>escalateEmail\<close>

text \<open>
  \<^verbatim>\<open>
  async escalateEmail(emailId, userId, classification: ClassificationResult, reason?: string) {
    const escalationReason = reason || `Low confidence classification
      (${classification.confidence}%) or complex inquiry requiring human review`;
    let priority = 'medium';
    if ('priority' in classification && classification.priority) {
      priority = classification.priority;
    } else {
      priority = classification.confidence < 40 ? 'high' : 'medium';
    }
    await storage.createEscalationQueue({ id: nanoid(), emailId, userId, priority,
      reason: escalationReason, status: 'pending' });
    await storage.updateEmail(emailId, { status: 'escalated',
      escalationReason: escalationReason, processedAt: new Date() });
    await storage.createActivityLog({ userId, action: 'Escalated to human', type: 'escalation',
      executedBy: 'ai', customerEmail: 'system', details: `Email escalated: ${escalationReason}`,
      status: 'pending', metadata: {...} });
    return { id: emailId, classification: classification.classification,
      confidence: classification.confidence, autoResponseSent: false, escalated: true };
  }
  \<close>
  (The template literal of the default reason is one line in the source.)
\<close>

definition escalateEmail ::
  "State \<Rightarrow> nat \<Rightarrow> string \<Rightarrow> ClassificationResult \<Rightarrow> string option
     \<Rightarrow> ProcessedEmail \<times> State" where
  "escalateEmail s emailId userId classification reason =
     (let escalationReason =
            orDefault reason
              (''Low confidence classification ('' @ numberToString (cr_confidence classification)
               @ ''%) or complex inquiry requiring human review'');
          priority =
            (case cr_priority classification of
               Some p \<Rightarrow> p
             | None \<Rightarrow> if cr_confidence classification < 40 then high else medium);
          s1 = createEscalationQueue s
                 \<lparr>eq_emailId = emailId, eq_userId = userId, eq_priority = priority,
                  eq_reason = escalationReason, eq_status = ''pending''\<rparr>;
          s2 = updateEmail s1 emailId
                 (\<lambda>e. e\<lparr>em_status := ''escalated'',
                         em_escalationReason := Some escalationReason\<rparr>);
          s3 = createActivityLog s2
                 \<lparr>al_userId = userId, al_action = ''Escalated to human'',
                  al_type = ''escalation'', al_executedBy = ''ai'',
                  al_customerEmail = ''system'',
                  al_details = ''Email escalated: '' @ escalationReason,
                  al_status = ''pending''\<rparr>
      in (\<lparr>pe_id = emailId, pe_classification = cr_classification classification,
           pe_confidence = cr_confidence classification, pe_autoResponseSent = False,
           pe_escalated = True, pe_ruleUsed = None, pe_awaitingApproval = None\<rparr>, s3))"

subsection \<open>isValidEmailForProduction and sendEmpathicAutoResponse\<close>

text \<open>
  \<^verbatim>\<open>
  private isValidEmailForProduction(email: string): boolean {
    const blockedPatterns = [ /^test/i, /^demo/i, /example\.com$/i, /test\.com$/i, /\.test$/i,
      /user\d+/i, /demo_/i, /\+test/i, /noreply/i, /donotreply/i ];
    return !blockedPatterns.some(pattern => pattern.test(email));
  }
  \<close>
  Each pattern is a predicate on the address. \<^verbatim>\<open>/user\d+/i\<close> asks for the letters
  \<^verbatim>\<open>user\<close> with a digit right after them.
\<close>

fun userDigits :: "string \<Rightarrow> bool" where
  "userDigits [] = False"
| "userDigits (c # cs) =
     ((startsWith (c # cs) ''user''
       \<and> (case drop 4 (c # cs) of [] \<Rightarrow> False | d # rest \<Rightarrow> isDigit d))
      \<or> userDigits cs)"

definition blockedPatterns :: "(string \<Rightarrow> bool) list" where
  "blockedPatterns =
     [\<lambda>email. startsWith (toLowerCase email) ''test'',
      \<lambda>email. startsWith (toLowerCase email) ''demo'',
      \<lambda>email. endsWith (toLowerCase email) ''example.com'',
      \<lambda>email. endsWith (toLowerCase email) ''test.com'',
      \<lambda>email. endsWith (toLowerCase email) ''.test'',
      \<lambda>email. userDigits (toLowerCase email),
      \<lambda>email. str_includes (toLowerCase email) ''demo_'',
      \<lambda>email. str_includes (toLowerCase email) ''+test'',
      \<lambda>email. str_includes (toLowerCase email) ''noreply'',
      \<lambda>email. str_includes (toLowerCase email) ''donotreply'']"

definition isValidEmailForProduction :: "string \<Rightarrow> bool" where
  "isValidEmailForProduction email = (\<not> list_ex (\<lambda>pattern. pattern email) blockedPatterns)"

text \<open>
  \<^verbatim>\<open>
  async sendEmpathicAutoResponse(userId, customerEmail, responseContent, originalSubject) {
    try {
      if (!this.isValidEmailForProduction(customerEmail)) { console.warn(...); return false; }
      const safetyValidation = await contentSafetyService.validateResponse(responseContent, userId);
      if (!safetyValidation.approved) { console.warn(...); return false; }
      let responseSubject = `Re: ${originalSubject}`;
      if (!originalSubject.toLowerCase().startsWith('re:')) {
        responseSubject = `Re: ${originalSubject}`;
      }
      const success = await emailRoutingService.sendEmail(userId, {
        to: customerEmail, subject: responseSubject, html: responseContent });
      return success;
    } catch (error) { console.error(...); return false; }
  }
  \<close>
  The state records the call of the delivery channel before its answer is known.
\<close>

definition sendEmpathicAutoResponse ::
  "Env \<Rightarrow> State \<Rightarrow> string \<Rightarrow> string \<Rightarrow> string \<Rightarrow> string \<Rightarrow> bool \<times> State" where
  "sendEmpathicAutoResponse env s userId customerEmail responseContent originalSubject =
     (if \<not> isValidEmailForProduction customerEmail then (False, s)
      else
        (case validateResponse env responseContent userId of
           Inl err \<Rightarrow> (False, s)
         | Inr safetyValidation \<Rightarrow>
             if \<not> sv_approved safetyValidation then (False, s)
             else
               (let responseSubject =
                      (if \<not> startsWith (toLowerCase originalSubject) ''re:''
                       then ''Re: '' @ originalSubject else ''Re: '' @ originalSubject);
                    message = \<lparr>dl_userId = userId, dl_to = customerEmail,
                               dl_subject = responseSubject, dl_html = responseContent\<rparr>;
                    s' = s\<lparr>deliveries := deliveries s @ [message]\<rparr>
                in case sendEmail env userId message of
                     Inl err \<Rightarrow> (False, s')
                   | Inr success \<Rightarrow> (success, s'))))"

subsection \<open>generateProposedResponse\<close>

text \<open>
  \<^verbatim>\<open>
  async generateProposedResponse(rule, emailData, userId) {
    try {
      ... settings, response context, thread context ...
      const empatheticResponse = await empatheticResponseGenerator.generateResponse(...);
      const aiSignature = await aiAgentSignatureService.generateAIAgentSignature(userId);
      const fullResponse = `${empatheticResponse.body}\n\n${aiSignature}`;
      return { response: fullResponse, adjustedConfidence: empatheticResponse.confidenceScore };
    } catch (error) {
      console.error(...);
      return this.generateLegacyResponse(rule, emailData, userId);
    }
  }
  private async generateLegacyResponse(rule, emailData, userId) {
    const escalationResponse = `Hello! ... Reply 'Human' anytime and a human will jump in.`;
    return { response: escalationResponse, adjustedConfidence: 15 };
  }
  \<close>
\<close>

definition newline :: string where
  "newline = [CHR 0x0A]"

definition generateLegacyResponse :: "string \<times> int" where
  "generateLegacyResponse =
     (''Hello!'' @ newline @ newline
      @ ''Thank you for contacting us. Your inquiry requires specialized assistance that our AI agent cannot provide at this time.''
      @ newline @ newline
      @ ''A human team member will review your message and respond within 24 hours to ensure you receive the most accurate and helpful information.''
      @ newline @ newline
      @ ''We appreciate your patience.'' @ newline @ newline
      @ ''Best regards,'' @ newline @ ''Customer Support Team'' @ newline @ newline
      @ ''This email was sent by a robot. We use AI to solve your problems as quickly as possible. Reply ''
      @ [CHR 0x27] @ ''Human'' @ [CHR 0x27] @ '' anytime and a human will jump in.'',
      15)"

definition generateProposedResponse :: "Env \<Rightarrow> Rule \<Rightarrow> EmailData \<Rightarrow> string \<Rightarrow> string \<times> int" where
  "generateProposedResponse env rule emailData userId =
     (case empatheticGenerate env rule emailData userId of
        Inl err \<Rightarrow> generateLegacyResponse
      | Inr empatheticResponse \<Rightarrow>
          (case generateAIAgentSignature env userId of
             Inl err \<Rightarrow> generateLegacyResponse
           | Inr aiSignature \<Rightarrow>
               (er_body empatheticResponse @ newline @ newline @ aiSignature,
                er_confidenceScore empatheticResponse)))"

subsection \<open>calculateSentimentAwareConfidence\<close>

text \<open>
  \<^verbatim>\<open>
  private async calculateSentimentAwareConfidence(baseConfidence: number, emailData, userId) {
    try {
      const sentimentResult = await sentimentAnalysisService.analyzeSentiment(emailData.body);
      let confidenceAdjustment = 0;
      const negativeScore = sentimentResult.scores.negative || 0;
      const sentimentConfidence = sentimentResult.confidence || 0;
      if (sentimentResult.sentiment === 'NEGATIVE') {
        if (negativeScore > 75 && sentimentConfidence > 90) { confidenceAdjustment = -25; }
        else if (negativeScore > 60 && sentimentConfidence > 80) { confidenceAdjustment = -15; }
        else if (negativeScore > 45 && sentimentConfidence > 70) { confidenceAdjustment = -8; }
      }
      if (sentimentResult.sentiment === 'POSITIVE' && sentimentConfidence > 80) {
        confidenceAdjustment = 5;
      }
      const adjustedConfidence = Math.max(10, Math.min(95, baseConfidence + confidenceAdjustment));
      return Math.round(adjustedConfidence);
    } catch (error) {
      console.error(...);
      return baseConfidence; // Return original confidence if sentiment analysis fails
    }
  }
  \<close>
  \<open>confidenceAdjustmentOf\<close> is the value of \<^verbatim>\<open>confidenceAdjustment\<close> after the two
  conditionals. \<^verbatim>\<open>Math.round\<close> leaves an integer as it is.
\<close>

definition Math_round :: "int \<Rightarrow> int" where
  "Math_round x = x"

definition confidenceAdjustmentOf :: "SentimentResult \<Rightarrow> int" where
  "confidenceAdjustmentOf sentimentResult =
     (let negativeScore = orNumber (sa_negative sentimentResult) 0;
          sentimentConfidence = orNumber (sa_confidence sentimentResult) 0;
          afterNegative =
            (if sa_sentiment sentimentResult = ''NEGATIVE''
             then (if negativeScore > 75 \<and> sentimentConfidence > 90 then - 25
                   else if negativeScore > 60 \<and> sentimentConfidence > 80 then - 15
                   else if negativeScore > 45 \<and> sentimentConfidence > 70 then - 8
                   else 0)
             else 0)
      in if sa_sentiment sentimentResult = ''POSITIVE'' \<and> sentimentConfidence > 80 then 5
         else afterNegative)"

definition calculateSentimentAwareConfidence :: "Env \<Rightarrow> int \<Rightarrow> EmailData \<Rightarrow> string \<Rightarrow> int" where
  "calculateSentimentAwareConfidence env baseConfidence emailData userId =
     (case analyzeSentiment env (ed_body emailData) of
        Inl err \<Rightarrow> baseConfidence
      | Inr sentimentResult \<Rightarrow>
          (let confidenceAdjustment = confidenceAdjustmentOf sentimentResult;
               adjustedConfidence = max 10 (min 95 (baseConfidence + confidenceAdjustment))
           in Math_round adjustedConfidence))"

text \<open>
  The adjustment in the words of the specification: "negative sentiment with score>75 &
  confidence>90 subtracts 25; score>60 & confidence>80 subtracts 15; score>45 &
  confidence>70 subtracts 8; positive sentiment with confidence>80 adds 5".
\<close>

definition specAdjustment :: "string \<Rightarrow> int \<Rightarrow> int \<Rightarrow> int" where
  "specAdjustment label score confidence =
     (if label = ''NEGATIVE'' \<and> score > 75 \<and> confidence > 90 then - 25
      else if label = ''NEGATIVE'' \<and> score > 60 \<and> confidence > 80 then - 15
      else if label = ''NEGATIVE'' \<and> score > 45 \<and> confidence > 70 then - 8
      else if label = ''POSITIVE'' \<and> confidence > 80 then 5
      else 0)"

subsection \<open>processIncomingEmail\<close>

text \<open>
  The method is embedded in the order of its statements; each definition below is one
  stretch of its body (the line numbers are those of \<^verbatim>\<open>auto-responder.ts\<close>).

  Lines 226 to 254, the sentiment check:
  \<^verbatim>\<open>
  let sentimentEscalation = false; let sentimentReason = '';
  try {
    const sentimentResult = await sentimentAnalysisService.analyzeSentiment(emailData.body);
    if (sentimentResult.sentiment === 'NEGATIVE') {
      const negativeScore = sentimentResult.scores.negative || 0;
      const sentimentConfidence = sentimentResult.confidence || 0;
      if (negativeScore > 75 && sentimentConfidence > 90) {
        sentimentEscalation = true;
        sentimentReason = `Very angry customer detected (${negativeScore}% negative sentiment
          with ${sentimentConfidence}% confidence)`;
      } else if (negativeScore > 85 && sentimentConfidence > 80) {
        sentimentEscalation = true;
        sentimentReason = `Highly frustrated customer detected (${negativeScore}% negative sentiment)`;
      }
    }
  } catch (sentimentError) { console.warn(...); }
  \<close>
  (Each template literal is one line in the source.)
\<close>

definition sentimentCheck :: "error + SentimentResult \<Rightarrow> bool \<times> string" where
  "sentimentCheck answer =
     (case answer of
        Inl sentimentError \<Rightarrow> (False, [])
      | Inr sentimentResult \<Rightarrow>
          if sa_sentiment sentimentResult = ''NEGATIVE''
          then
            (let negativeScore = orNumber (sa_negative sentimentResult) 0;
                 sentimentConfidence = orNumber (sa_confidence sentimentResult) 0
             in if negativeScore > 75 \<and> sentimentConfidence > 90
                then (True,
                      ''Very angry customer detected ('' @ numberToString negativeScore
                      @ ''% negative sentiment with '' @ numberToString sentimentConfidence
                      @ ''% confidence)'')
                else if negativeScore > 85 \<and> sentimentConfidence > 80
                then (True,
                      ''Highly frustrated customer detected ('' @ numberToString negativeScore
                      @ ''% negative sentiment)'')
                else (False, []))
          else (False, []))"

text \<open>
  Lines 293 to 363, the branch that queues the reply for approval:
  \<^verbatim>\<open>
  const responseData = await this.generateProposedResponse(rule, emailData, userId);
  await storage.createAutomationApprovalItem({
    userId, emailId: email.id, ruleId: rule.id, customerEmail: emailData.fromEmail,
    subject: emailData.subject, body: emailData.body,
    classification: classification.classification,
    confidence: responseData.adjustedConfidence, proposedResponse: responseData.response,
    status: 'pending',
    metadata: { originalMessageId: emailData.messageId, ...,
      // Include real data for UI display
      orderData: responseContext.orderData,
      cancellationData: responseContext.cancellationData,
      promoRefundData: responseContext.promoRefundData,
      productData: responseContext.productData } });
  await storage.updateEmail(email.id, { status: 'awaiting_approval',
    metadata: { ...(email.metadata as any || {}), awaitingApproval: true, ruleId: rule.id } });
  await storage.createActivityLog({ userId, action: 'Queued for approval', ... });
  return { id: email.id, classification: classification.classification,
    confidence: classification.confidence, autoResponseSent: false, escalated: false,
    awaitingApproval: true, ruleUsed: rule.name };
  \<close>
  The argument of \<^verbatim>\<open>createAutomationApprovalItem\<close> is evaluated before the call. It reads
  the identifier \<^verbatim>\<open>responseContext\<close>. \<open>processIncomingEmail_scope\<close> lists the identifiers
  that are bound where the argument is evaluated: the bindings of the module (its imports,
  \<^verbatim>\<open>openai\<close>, the class and the exported instance) and the parameters and local bindings
  of \<^verbatim>\<open>processIncomingEmail\<close> down to this statement. \<^verbatim>\<open>responseContext\<close> is a local
  constant of \<^verbatim>\<open>generateProposedResponse\<close> only. Reading an identifier that no scope
  binds throws a \<^verbatim>\<open>ReferenceError\<close>.
\<close>

definition processIncomingEmail_scope :: "string list" where
  "processIncomingEmail_scope =
     [''storage'', ''emailRoutingService'', ''promoRefundService'', ''contentSafetyService'',
      ''sentimentAnalysisService'', ''hallucinationPreventionService'',
      ''empatheticResponseGenerator'', ''OpenAI'', ''aiAgentSignatureService'', ''openai'',
      ''AutoResponderService'', ''autoResponderService'',
      ''userId'', ''emailData'', ''email'', ''classification'', ''sentimentEscalation'',
      ''sentimentReason'', ''rule'', ''settings'', ''approvalRequired'', ''responseData'']"

definition resolveIdentifier :: "string \<Rightarrow> error + unit" where
  "resolveIdentifier name =
     (if name \<in> set processIncomingEmail_scope then Inr ()
      else Inl (ReferenceError (name @ '' is not defined'')))"

definition queueForApproval ::
  "Env \<Rightarrow> State \<Rightarrow> string \<Rightarrow> EmailData \<Rightarrow> Email \<Rightarrow> ClassificationResult \<Rightarrow> Rule
     \<Rightarrow> (error + ProcessedEmail) \<times> State" where
  "queueForApproval env s userId emailData email classification rule =
     (case generateProposedResponse env rule emailData userId of
        (response, adjustedConfidence) \<Rightarrow>
          (case resolveIdentifier ''responseContext'' of
             Inl err \<Rightarrow> (Inl err, s)
           | Inr responseContext \<Rightarrow>
               (let s1 = createAutomationApprovalItem s
                           \<lparr>ap_userId = userId, ap_emailId = em_id email,
                            ap_ruleId = rule_id rule, ap_customerEmail = ed_fromEmail emailData,
                            ap_subject = ed_subject emailData, ap_body = ed_body emailData,
                            ap_classification = cr_classification classification,
                            ap_confidence = adjustedConfidence,
                            ap_proposedResponse = response, ap_status = ''pending''\<rparr>;
                    s2 = updateEmail s1 (em_id email)
                           (\<lambda>e. e\<lparr>em_status := ''awaiting_approval'',
                                   em_classificationReasoning := None,
                                   em_awaitingApproval := True,
                                   em_ruleId := Some (rule_id rule)\<rparr>);
                    s3 = createActivityLog s2
                           \<lparr>al_userId = userId, al_action = ''Queued for approval'',
                            al_type = ''email_processed'', al_executedBy = ''ai'',
                            al_customerEmail = ed_fromEmail emailData,
                            al_details = ''AI classified email as ''
                              @ cr_classification classification
                              @ '' and queued automation for approval'',
                            al_status = ''pending''\<rparr>
                in (Inr \<lparr>pe_id = em_id email,
                         pe_classification = cr_classification classification,
                         pe_confidence = cr_confidence classification,
                         pe_autoResponseSent = False, pe_escalated = False,
                         pe_ruleUsed = Some (rule_name rule),
                         pe_awaitingApproval = Some True\<rparr>, s3))))"

text \<open>
  Lines 365 to 419, the handler of the category when no approval is required:
  \<^verbatim>\<open>
  let responseSuccess = false;
  if (classification.classification === 'promo_refund') {
    const enhancedResult = await enhancedPromoRefundService.processEnhancedPromoRefund(...);
    if (enhancedResult.success) { responseSuccess = true; }
    else if (enhancedResult.shouldEscalate) {
      responseSuccess = await promoRefundService.processPromoRefund(email.id,
        emailData.fromEmail, userId, rule);
    }
  } else if (classification.classification === 'order_cancellation') {
    const result = await orderCancellationService.initiateCancellationWorkflow(...);
    responseSuccess = result.success;
  } else if (classification.classification === 'address_change') {
    const result = await addressChangeService.initiateAddressChangeWorkflow(...);
    responseSuccess = result.success;
  } else {
    const responseData = await this.generateProposedResponse(rule, emailData, userId);
    responseSuccess = await this.sendEmpathicAutoResponse(userId, emailData.fromEmail,
      responseData.response, emailData.subject);
  }
  \<close>
  None of the awaited calls stands in a \<^verbatim>\<open>try\<close> block: an exception of a handler leaves
  \<^verbatim>\<open>processIncomingEmail\<close>.
\<close>

definition runHandler ::
  "Env \<Rightarrow> State \<Rightarrow> string \<Rightarrow> EmailData \<Rightarrow> Email \<Rightarrow> ClassificationResult \<Rightarrow> Rule
     \<Rightarrow> (error + bool) \<times> State" where
  "runHandler env s userId emailData email classification rule =
     (if cr_classification classification = ''promo_refund''
      then
        (case processEnhancedPromoRefund env (em_id email) emailData userId of
           Inl err \<Rightarrow> (Inl err, s)
         | Inr enhancedResult \<Rightarrow>
             if en_success enhancedResult then (Inr True, s)
             else if en_shouldEscalate enhancedResult
             then (processPromoRefund env (em_id email) (ed_fromEmail emailData) userId rule, s)
             else (Inr False, s))
      else if cr_classification classification = ''order_cancellation''
      then (initiateCancellationWorkflow env userId (em_id email) emailData, s)
      else if cr_classification classification = ''address_change''
      then (initiateAddressChangeWorkflow env userId (em_id email) emailData, s)
      else
        (case generateProposedResponse env rule emailData userId of
           (response, adjustedConfidence) \<Rightarrow>
             (case sendEmpathicAutoResponse env s userId (ed_fromEmail emailData) response
                     (ed_subject emailData) of
                (success, s') \<Rightarrow> (Inr success, s'))))"

text \<open>
  Lines 421 to 464, after the handler:
  \<^verbatim>\<open>
  if (responseSuccess) {
    await storage.updateAutoResponderRule(rule.id, {
      triggerCount: (rule.triggerCount || 0) + 1, lastTriggered: new Date() });
    await storage.updateEmail(email.id, { status: 'resolved', isResponded: true,
      aiResponse: rule.template, processedAt: new Date() });
    await storage.createActivityLog({ userId, action: 'Sent automated reply', ... });
    return { id: email.id, classification: classification.classification,
      confidence: classification.confidence, autoResponseSent: true, escalated: false,
      ruleUsed: rule.name };
  } else {
    return await this.escalateEmail(email.id, userId, classification,
      'Failed to send auto-response');
  }
  \<close>
\<close>

definition executeAutomation ::
  "Env \<Rightarrow> State \<Rightarrow> string \<Rightarrow> EmailData \<Rightarrow> Email \<Rightarrow> ClassificationResult \<Rightarrow> Rule
     \<Rightarrow> (error + ProcessedEmail) \<times> State" where
  "executeAutomation env s userId emailData email classification rule =
     (case runHandler env s userId emailData email classification rule of
        (Inl err, s') \<Rightarrow> (Inl err, s')
      | (Inr responseSuccess, s') \<Rightarrow>
          if responseSuccess
          then
            (let s1 = updateAutoResponderRule s' (rule_id rule)
                        (\<lambda>r. r\<lparr>rule_triggerCount :=
                                  Some ((case rule_triggerCount rule of None \<Rightarrow> 0 | Some n \<Rightarrow> n)
                                        + 1)\<rparr>);
                 s2 = updateEmail s1 (em_id email)
                        (\<lambda>e. e\<lparr>em_status := ''resolved'', em_isResponded := True,
                                em_aiResponse := Some (rule_template rule)\<rparr>);
                 s3 = createActivityLog s2
                        \<lparr>al_userId = userId, al_action = ''Sent automated reply'',
                         al_type = ''email_processed'', al_executedBy = ''ai'',
                         al_customerEmail = ed_fromEmail emailData,
                         al_details = ''AI automatically sent ''
                           @ cr_classification classification
                           @ '' response using rule: '' @ rule_name rule,
                         al_status = ''completed''\<rparr>
             in (Inr \<lparr>pe_id = em_id email,
                      pe_classification = cr_classification classification,
                      pe_confidence = cr_confidence classification,
                      pe_autoResponseSent = True, pe_escalated = False,
                      pe_ruleUsed = Some (rule_name rule), pe_awaitingApproval = None\<rparr>, s3))
          else
            (case escalateEmail s' (em_id email) userId classification
                    (Some ''Failed to send auto-response'') of
               (processed, s'') \<Rightarrow> (Inr processed, s'')))"

text \<open>
  Lines 285 to 297, the rule and the approval setting:
  \<^verbatim>\<open>
  const rule = await this.findMatchingRule(userId, classification.classification,
    classification.confidence);
  if (!rule) {
    return await this.escalateEmail(email.id, userId, classification,
      'No matching auto-responder rule');
  }
  const settings = await storage.getSystemSettings(userId);
  const approvalRequired = settings?.automationApprovalRequired ?? true;
  if (approvalRequired) { ... lines 298 to 362 ... }
  \<close>
\<close>

definition approvalRequiredOf :: "Settings option \<Rightarrow> bool" where
  "approvalRequiredOf settings =
     (case settings of
        None \<Rightarrow> True
      | Some st \<Rightarrow> (case automationApprovalRequired st of None \<Rightarrow> True | Some b \<Rightarrow> b))"

definition routeByRule ::
  "Env \<Rightarrow> State \<Rightarrow> string \<Rightarrow> EmailData \<Rightarrow> Email \<Rightarrow> ClassificationResult
     \<Rightarrow> (error + ProcessedEmail) \<times> State" where
  "routeByRule env s userId emailData email classification =
     (case findMatchingRule s userId (cr_classification classification)
             (cr_confidence classification) of
        None \<Rightarrow>
          (case escalateEmail s (em_id email) userId classification
                  (Some ''No matching auto-responder rule'') of
             (processed, s') \<Rightarrow> (Inr processed, s'))
      | Some rule \<Rightarrow>
          (let settings = getSystemSettings s userId;
               approvalRequired = approvalRequiredOf settings
           in if approvalRequired
              then queueForApproval env s userId emailData email classification rule
              else executeAutomation env s userId emailData email classification rule))"

text \<open>
  Lines 256 to 283, the stored classification and the escalation check:
  \<^verbatim>\<open>
  await storage.updateEmail(email.id, { classification: classification.classification,
    confidence: classification.confidence,
    metadata: { ...(email.metadata as any || {}),
      classificationReasoning: classification.reasoning } });
  if (classification.confidence < 60 || classification.classification === 'escalation'
      || sentimentEscalation) {
    const escalationReason = sentimentEscalation
      ? `Negative sentiment detected - ${sentimentReason}` : undefined;
    let escalationClassification = classification;
    if (sentimentEscalation) {
      escalationClassification = { ...classification,
        priority: sentimentReason.includes('Very angry') ? 'urgent' : 'high',
        priorityReasoning: `Escalated due to negative sentiment: ${sentimentReason}` };
    }
    return await this.escalateEmail(email.id, userId, escalationClassification, escalationReason);
  }
  \<close>
\<close>

definition routeClassified ::
  "Env \<Rightarrow> State \<Rightarrow> string \<Rightarrow> EmailData \<Rightarrow> Email \<Rightarrow> ClassificationResult \<Rightarrow> bool \<times> string
     \<Rightarrow> (error + ProcessedEmail) \<times> State" where
  "routeClassified env s userId emailData email classification sentiment =
     (case sentiment of
        (sentimentEscalation, sentimentReason) \<Rightarrow>
          (let s1 = updateEmail s (em_id email)
                      (\<lambda>e. e\<lparr>em_classification := Some (cr_classification classification),
                              em_confidence := Some (cr_confidence classification),
                              em_classificationReasoning :=
                                Some (cr_reasoning classification)\<rparr>)
           in if cr_confidence classification < 60
                 \<or> cr_classification classification = ''escalation'' \<or> sentimentEscalation
              then
                (let escalationReason =
                       (if sentimentEscalation
                        then Some (''Negative sentiment detected - '' @ sentimentReason)
                        else None);
                     escalationClassification =
                       (if sentimentEscalation
                        then classification
                          \<lparr>cr_priority :=
                             Some (if str_includes sentimentReason ''Very angry'' then urgent
                                   else high),
                           cr_priorityReasoning :=
                             Some (''Escalated due to negative sentiment: ''
                                   @ sentimentReason)\<rparr>
                        else classification)
                 in case escalateEmail s1 (em_id email) userId escalationClassification
                           escalationReason of
                      (processed, s') \<Rightarrow> (Inr processed, s'))
              else routeByRule env s1 userId emailData email classification))"

text \<open>
  Lines 187 to 254, the method from its first statement:
  \<^verbatim>\<open>
  async processIncomingEmail(userId: string, emailData: {...}): Promise<ProcessedEmail> {
    const email = await storage.createEmail({ userId, fromEmail: emailData.fromEmail,
      toEmail: emailData.toEmail, subject: emailData.subject, body: emailData.body,
      status: 'processing',
      metadata: { messageId: emailData.messageId, receivedAt: new Date().toISOString() } });
    try {
      const { ThreadContextService } = await import('./thread-context');
      await ThreadContextService.linkEmailToThread(email.id, emailData.subject,
        emailData.fromEmail, emailData.toEmail);
    } catch (error) { console.error('Failed to link email to thread:', error); }
    const classification = await this.classifyEmail(emailData.body, emailData.subject, userId);
    ... sentiment check, stored classification, routing ...
  }
  \<close>
  The first statement is the call of \<^verbatim>\<open>storage.createEmail\<close>; no statement before it
  reads the stored Messages, and the call stands in no \<^verbatim>\<open>try\<close> block: if it throws,
  the method throws. \<open>afterCreateEmail\<close> is the method after its first statement.
  \<open>processIncomingEmailOn\<close> is the method with the call \<^verbatim>\<open>storage.createEmail\<close> as a
  parameter, which returns the created Message and the new state of the store, or throws;
  \<open>processIncomingEmail\<close> is the method on a store that accepts the Message.
\<close>

definition afterCreateEmail ::
  "Env \<Rightarrow> State \<Rightarrow> string \<Rightarrow> EmailData \<Rightarrow> Email \<Rightarrow> (error + ProcessedEmail) \<times> State" where
  "afterCreateEmail env s1 userId emailData email =
     (case linkEmailToThread env (em_id email) (ed_subject emailData)
             (ed_fromEmail emailData) (ed_toEmail emailData) of
        linked \<Rightarrow>
          (case classifyEmail env (ed_body emailData) (ed_subject emailData) (Some userId) of
             Inl err \<Rightarrow> (Inl err, s1)
           | Inr classification \<Rightarrow>
               routeClassified env s1 userId emailData email classification
                 (sentimentCheck (analyzeSentiment env (ed_body emailData)))))"


definition processIncomingEmail ::
  "Env \<Rightarrow> State \<Rightarrow> string \<Rightarrow> EmailData \<Rightarrow> (error + ProcessedEmail) \<times> State" where
  "processIncomingEmail env s userId emailData =
     (case createEmail s userId emailData ''processing'' of
        (email, s1) \<Rightarrow> afterCreateEmail env s1 userId emailData email)"

subsection \<open>The Message of an invocation\<close>

text \<open>
  The row that an invocation of \<^verbatim>\<open>processIncomingEmail\<close> on the state \<open>before\<close> has
  created, read from the state \<open>after\<close>: \<^verbatim>\<open>createEmail\<close> appends it to the table, at the
  position that was the length of the table.
\<close>

definition createdMessage :: "State \<Rightarrow> State \<Rightarrow> Email" where
  "createdMessage before after = emails after ! length (emails before)"


text \<open>\<open>messageAt s n\<close>: the row at position \<open>n\<close> of the table of Messages carries the
  identifier \<open>n\<close>, as the row that \<^verbatim>\<open>createEmail\<close> has just appended does.\<close>

definition messageAt :: "State \<Rightarrow> nat \<Rightarrow> bool" where
  "messageAt s n = (n < length (emails s) \<and> em_id (emails s ! n) = n)"


section \<open>Example inputs\<close>

text \<open>
  Concrete collaborators, stores and messages, at which the properties below are
  evaluated. In \<open>failingEnv\<close> every collaborator throws. In \<open>exampleEnv\<close> the grounded
  classifier and the sentiment service give the two answers passed in, and every other
  collaborator succeeds.
\<close>

definition failingEnv :: Env where
  "failingEnv =
     \<lparr>linkEmailToThread =
        (\<lambda>emailId subject fromEmail toEmail. Inl (Thrown ''thread store unavailable'')),
      classifyWithGrounding =
        (\<lambda>userId emailContent subject. Inl (Thrown ''grounding unavailable'')),
      chatCompletion = (\<lambda>subject emailContent. Inl (Thrown ''completion failed'')),
      analyzeSentiment = (\<lambda>body. Inl (Thrown ''sentiment unavailable'')),
      empatheticGenerate = (\<lambda>rule emailData userId. Inl (Thrown ''generator failed'')),
      generateAIAgentSignature = (\<lambda>userId. Inl (Thrown ''signature failed'')),
      validateResponse = (\<lambda>content userId. Inl (Thrown ''validation failed'')),
      sendEmail = (\<lambda>userId message. Inl (Thrown ''send failed'')),
      processEnhancedPromoRefund = (\<lambda>emailId emailData userId. Inl (Thrown ''handler failed'')),
      processPromoRefund = (\<lambda>emailId fromEmail userId rule. Inl (Thrown ''handler failed'')),
      initiateCancellationWorkflow =
        (\<lambda>userId emailId emailData. Inl (Thrown ''handler failed'')),
      initiateAddressChangeWorkflow =
        (\<lambda>userId emailId emailData. Inl (Thrown ''handler failed''))\<rparr>"

definition exampleEnv :: "ClassificationResult \<Rightarrow> error + SentimentResult \<Rightarrow> Env" where
  "exampleEnv classification sentiment =
     \<lparr>linkEmailToThread = (\<lambda>emailId subject fromEmail toEmail. Inr ()),
      classifyWithGrounding = (\<lambda>userId emailContent subject. Inr classification),
      chatCompletion =
        (\<lambda>subject emailContent.
           Inr \<lparr>cj_classification = None, cj_confidence = None, cj_reasoning = None,
                cj_priority = None, cj_priorityReasoning = None\<rparr>),
      analyzeSentiment = (\<lambda>body. sentiment),
      empatheticGenerate =
        (\<lambda>rule emailData userId.
           Inr \<lparr>er_body = ''Thank you for your message.'', er_confidenceScore = 80\<rparr>),
      generateAIAgentSignature = (\<lambda>userId. Inr ''Your support agent''),
      validateResponse =
        (\<lambda>content userId. Inr \<lparr>sv_approved = True, sv_blockReason = None\<rparr>),
      sendEmail = (\<lambda>userId message. Inr True),
      processEnhancedPromoRefund =
        (\<lambda>emailId emailData userId. Inr \<lparr>en_success = True, en_shouldEscalate = False\<rparr>),
      processPromoRefund = (\<lambda>emailId fromEmail userId rule. Inr True),
      initiateCancellationWorkflow = (\<lambda>userId emailId emailData. Inr True),
      initiateAddressChangeWorkflow = (\<lambda>userId emailId emailData. Inr True)\<rparr>"

definition exampleClassification :: "string \<Rightarrow> int \<Rightarrow> ClassificationResult" where
  "exampleClassification category confidence =
     \<lparr>cr_classification = category, cr_confidence = confidence,
      cr_reasoning = ''customer asks about an order'', cr_priority = Some medium,
      cr_priorityReasoning = Some ''standard request''\<rparr>"

definition exampleSentiment :: "string \<Rightarrow> int \<Rightarrow> int \<Rightarrow> SentimentResult" where
  "exampleSentiment label negative confidence =
     \<lparr>sa_sentiment = label, sa_negative = Some negative, sa_confidence = Some confidence\<rparr>"

definition exampleData :: EmailData where
  "exampleData =
     \<lparr>ed_fromEmail = ''anna@shop.org'', ed_toEmail = ''support@store.org'',
      ed_subject = ''Order question'', ed_body = ''Where is my order #12345?'',
      ed_messageId = Some ''msg-1''\<rparr>"

definition exampleRule :: "string \<Rightarrow> Rule" where
  "exampleRule category =
     \<lparr>rule_id = 1, rule_userId = ''account-1'', rule_name = ''Standard reply'',
      rule_classification = category, rule_isActive = True,
      rule_template = ''We are looking into it.'', rule_triggerCount = None\<rparr>"

definition exampleState :: "Rule list \<Rightarrow> Settings option \<Rightarrow> State" where
  "exampleState rules settings =
     \<lparr>emails = [], autoResponderRules = rules, systemSettings = (\<lambda>userId. settings),
      escalationQueue = [], approvalItems = [], activityLogs = [], deliveries = []\<rparr>"

text \<open>Named instances: a calm customer asking about an order (confidence 82), a sentiment
  answer with the label \<^verbatim>\<open>MIXED\<close>, negative score 90 and confidence 85, an account whose
  settings switch the approval off, and an account without settings.\<close>

definition calmEnv :: Env where
  "calmEnv = exampleEnv (exampleClassification ''order_status'' 82)
               (Inr (exampleSentiment ''NEUTRAL'' 5 90))"

definition mixedSentimentEnv :: Env where
  "mixedSentimentEnv = exampleEnv (exampleClassification ''order_status'' 82)
                         (Inr (exampleSentiment ''MIXED'' 90 85))"

definition automationState :: State where
  "automationState =
     exampleState [exampleRule ''order_status'']
       (Some \<lparr>automationApprovalRequired = Some False\<rparr>)"

definition approvalState :: State where
  "approvalState = exampleState [exampleRule ''order_status''] None"

definition lowConfidenceEnv :: Env where
  "lowConfidenceEnv = exampleEnv (exampleClassification ''general'' 45)
                        (Inl (Thrown ''sentiment unavailable''))"

definition frustratedEnv :: Env where
  "frustratedEnv = exampleEnv (exampleClassification ''order_status'' 95)
                     (Inr (exampleSentiment ''NEGATIVE'' 90 85))"

definition angryEnv :: Env where
  "angryEnv = exampleEnv (exampleClassification ''order_status'' 95)
                (Inr (exampleSentiment ''NEGATIVE'' 92 95))"

definition blockingEnv :: Env where
  "blockingEnv =
     calmEnv\<lparr>validateResponse :=
       (\<lambda>content userId.
          Inr \<lparr>sv_approved = False, sv_blockReason = Some ''content moderation''\<rparr>)\<rparr>"

definition noRuleState :: State where
  "noRuleState = exampleState [] (Some \<lparr>automationApprovalRequired = Some False\<rparr>)"

definition generalRuleState :: State where
  "generalRuleState =
     exampleState [exampleRule ''general'']
       (Some \<lparr>automationApprovalRequired = Some False\<rparr>)"








section \<open>Properties of the numbers\<close>

subsection \<open>The rounding\<close>

lemma roundHalfEven_int [simp]: "roundHalfEven (of_int k) = k"
  by (simp add: roundHalfEven_def)

lemma roundHalfEven_floor: "\<lfloor>t\<rfloor> \<le> roundHalfEven t"
  by (simp add: roundHalfEven_def Let_def)

lemma roundHalfEven_ge: "of_int m \<le> t \<Longrightarrow> m \<le> roundHalfEven t"
  using roundHalfEven_floor [of t] le_floor_iff [of m t] by linarith

lemma roundHalfEven_near:
  "of_int n - 1 / 2 < t \<Longrightarrow> t < of_int n + 1 / 2 \<Longrightarrow> roundHalfEven t = n"
proof -
  assume a: "of_int n - 1 / 2 < t" "t < of_int n + 1 / 2"
  have "n - 1 \<le> \<lfloor>t\<rfloor>" using le_floor_iff [of "n - 1" t] a by simp
  moreover have "\<lfloor>t\<rfloor> < n + 1" using floor_less_iff [of t "n + 1"] a by simp
  ultimately have "\<lfloor>t\<rfloor> = n \<or> \<lfloor>t\<rfloor> = n - 1" by linarith
  then show ?thesis
  proof
    assume f: "\<lfloor>t\<rfloor> = n"
    then have "t - of_int \<lfloor>t\<rfloor> < 1 / 2" using a by simp
    then show ?thesis using f by (simp add: roundHalfEven_def Let_def)
  next
    assume f: "\<lfloor>t\<rfloor> = n - 1"
    then have "t - of_int \<lfloor>t\<rfloor> > 1 / 2" using a by simp
    then show ?thesis using f by (simp add: roundHalfEven_def Let_def)
  qed
qed

lemma ulp_pos: "0 < ulp x"
  by (simp add: ulp_def)

lemma ulp_ge: "2 powi (- 1074) \<le> ulp x"
  unfolding ulp_def exponentOf_def
  by (rule power_int_increasing) auto

lemma floor_log2_bounds:
  assumes "0 < x"
  shows "2 powi \<lfloor>log 2 x\<rfloor> \<le> x" and "x < 2 powi (\<lfloor>log 2 x\<rfloor> + 1)"
proof -
  have a: "(2::real) powr real_of_int k = 2 powi k" for k
    by (rule powr_real_of_int') auto
  have "(\<lfloor>log 2 x\<rfloor> = \<lfloor>log 2 x\<rfloor>)
          = (2 powi \<lfloor>log 2 x\<rfloor> \<le> x \<and> x < 2 powi (\<lfloor>log 2 x\<rfloor> + 1))"
    using floor_log_eq_powr_iff [of x 2 "\<lfloor>log 2 x\<rfloor>"] assms unfolding a by fastforce
  then show "2 powi \<lfloor>log 2 x\<rfloor> \<le> x" and "x < 2 powi (\<lfloor>log 2 x\<rfloor> + 1)"
    by blast+
qed

lemma floor_log2_eq:
  assumes "2 powi e \<le> x" "x < 2 powi (e + 1)"
  shows "\<lfloor>log 2 x\<rfloor> = e"
proof -
  have "0 < (2::real) powi e" by simp
  with assms have "0 < x" by linarith
  have a: "(2::real) powr real_of_int k = 2 powi k" for k
    by (rule powr_real_of_int') auto
  have "(\<lfloor>log 2 x\<rfloor> = e) = (2 powi e \<le> x \<and> x < 2 powi (e + 1))"
    using floor_log_eq_powr_iff [of x 2 e] \<open>0 < x\<close> unfolding a by fastforce
  with assms show ?thesis by blast
qed

lemma floor_log2_ge:
  assumes "2 powi k \<le> x"
  shows "k \<le> \<lfloor>log 2 x\<rfloor>"
proof (rule ccontr)
  assume "\<not> k \<le> \<lfloor>log 2 x\<rfloor>"
  then have "\<lfloor>log 2 x\<rfloor> + 1 \<le> k" by simp
  then have "(2::real) powi (\<lfloor>log 2 x\<rfloor> + 1) \<le> 2 powi k"
    by (intro power_int_increasing) auto
  moreover have "0 < x" using assms zero_less_power_int [of "2::real" k] by linarith
  ultimately show False
    using floor_log2_bounds(2) [of x] assms by linarith
qed

text \<open>The rounding of a magnitude whose binary exponent is known, and of a magnitude
  below the normal doubles.\<close>

lemma roundToDouble_exponent:
  assumes "2 powi e \<le> x" "x < 2 powi (e + 1)" "- 1022 \<le> e"
  shows "roundToDouble s x =
           (let y = 2 powi (e - 52) * of_int (roundHalfEven (x / 2 powi (e - 52)))
            in if y \<ge> 2 ^ 1024 then Infinity s else Finite s y)"
proof -
  have "0 < (2::real) powi e" by simp
  with assms have x: "x \<noteq> 0" by linarith
  have "exponentOf x = e"
    using floor_log2_eq [OF assms(1,2)] assms(3) by (simp add: exponentOf_def)
  then show ?thesis using x by (simp add: roundToDouble_def ulp_def)
qed

lemma roundToDouble_subnormal:
  assumes "0 < x" "x < 2 powi (- 1022)"
  shows "roundToDouble s x =
           (let y = 2 powi (- 1074) * of_int (roundHalfEven (x / 2 powi (- 1074)))
            in if y \<ge> 2 ^ 1024 then Infinity s else Finite s y)"
proof -
  have "\<lfloor>log 2 x\<rfloor> < - 1022"
  proof (rule ccontr)
    assume "\<not> \<lfloor>log 2 x\<rfloor> < - 1022"
    then have "(2::real) powi (- 1022) \<le> 2 powi \<lfloor>log 2 x\<rfloor>"
      by (intro power_int_increasing) auto
    with floor_log2_bounds(1) [OF assms(1)] assms(2) show False by linarith
  qed
  then have "exponentOf x = - 1022" by (simp add: exponentOf_def)
  then show ?thesis using assms(1) by (simp add: roundToDouble_def ulp_def)
qed

text \<open>The magnitudes that the rounding produces are zero or at least \<open>2 powi (- 1074)\<close>,
  and below \<open>2 ^ 1024\<close>. A magnitude that is at least \<open>2 powi k\<close>, for an exponent \<open>k\<close> of
  the normal doubles or for \<open>k = - 1074\<close>, is rounded to a magnitude that is at least
  \<open>2 powi k\<close>, or overflows; a magnitude from \<open>2 ^ 1024\<close> on overflows.\<close>

lemma roundToDouble_cases:
  assumes "0 \<le> x"
  shows "roundToDouble s x = Infinity s
         \<or> (\<exists>y. roundToDouble s x = Finite s y \<and> (y = 0 \<or> 2 powi (- 1074) \<le> y))"
proof (cases "x = 0")
  case True
  then show ?thesis by (simp add: roundToDouble_def)
next
  case False
  define n where "n = roundHalfEven (x / ulp x)"
  have "0 \<le> x / ulp x" using assms ulp_pos [of x] by simp
  then have n0: "0 \<le> n" unfolding n_def using roundHalfEven_ge [of 0] by simp
  have "ulp x * of_int n = 0 \<or> 2 powi (- 1074) \<le> ulp x * of_int n"
  proof (cases "n = 0")
    case True
    then show ?thesis by simp
  next
    case False
    with n0 have "1 \<le> n" by simp
    then have "(1::real) \<le> of_int n" by simp
    then have "ulp x * 1 \<le> ulp x * of_int n"
      using ulp_pos [of x] by (intro mult_left_mono) auto
    then have "ulp x \<le> ulp x * of_int n" by (simp only: mult_1_right)
    with ulp_ge [of x] have "2 powi (- 1074) \<le> ulp x * of_int n" by (rule order_trans)
    then show ?thesis ..
  qed
  then show ?thesis
    using False by (auto simp: roundToDouble_def Let_def n_def)
qed

lemma roundToDouble_lower:
  assumes "2 powi k \<le> x" "- 1022 \<le> k"
  shows "roundToDouble s x = Infinity s
         \<or> (\<exists>y. roundToDouble s x = Finite s y \<and> 2 powi k \<le> y)"
proof -
  define e where "e = \<lfloor>log 2 x\<rfloor>"
  have "0 < (2::real) powi k" by simp
  with assms have xpos: "0 < x" by linarith
  have ke: "k \<le> e" unfolding e_def by (rule floor_log2_ge [OF assms(1)])
  have ex: "exponentOf x = e" using ke assms(2) by (simp add: exponentOf_def e_def)
  have lo: "2 powi e \<le> x" unfolding e_def by (rule floor_log2_bounds(1) [OF xpos])
  have u: "ulp x = 2 powi (e - 52)" by (simp add: ulp_def ex)
  have split: "(2::real) powi e = 2 powi (e - 52) * 2 ^ 52"
    using power_int_add [of "2::real" "e - 52" 52] by simp
  have "of_int (2 ^ 52) \<le> x / ulp x"
    using lo ulp_pos [of x] unfolding u split by (simp add: pos_le_divide_eq mult.commute)
  then have "2 ^ 52 \<le> roundHalfEven (x / ulp x)" by (rule roundHalfEven_ge)
  then have "(2::real) ^ 52 \<le> of_int (roundHalfEven (x / ulp x))"
    by (metis of_int_le_iff of_int_numeral of_int_power)
  then have "ulp x * 2 ^ 52 \<le> ulp x * of_int (roundHalfEven (x / ulp x))"
    using ulp_pos [of x] by (intro mult_left_mono) auto
  then have "2 powi e \<le> ulp x * of_int (roundHalfEven (x / ulp x))"
    unfolding u split .
  moreover have "(2::real) powi k \<le> 2 powi e" using ke by (intro power_int_increasing) auto
  ultimately have "2 powi k \<le> ulp x * of_int (roundHalfEven (x / ulp x))" by linarith
  then show ?thesis
    using xpos by (auto simp: roundToDouble_def Let_def)
qed

lemma roundToDouble_lower_tiny:
  assumes "2 powi (- 1074) \<le> x"
  shows "roundToDouble s x = Infinity s
         \<or> (\<exists>y. roundToDouble s x = Finite s y \<and> 2 powi (- 1074) \<le> y)"
proof -
  have "0 < (2::real) powi (- 1074)" by simp
  with assms have xpos: "0 < x" by linarith
  have "ulp x \<le> x"
  proof (cases "\<lfloor>log 2 x\<rfloor> \<le> - 1022")
    case True
    then have "ulp x = 2 powi (- 1074)" by (simp add: ulp_def exponentOf_def max_def)
    with assms show ?thesis by simp
  next
    case False
    then have "ulp x = 2 powi (\<lfloor>log 2 x\<rfloor> - 52)" by (simp add: ulp_def exponentOf_def max_def)
    moreover have "(2::real) powi (\<lfloor>log 2 x\<rfloor> - 52) \<le> 2 powi \<lfloor>log 2 x\<rfloor>"
      by (intro power_int_increasing) auto
    ultimately show ?thesis using floor_log2_bounds(1) [OF xpos] by linarith
  qed
  then have "of_int 1 \<le> x / ulp x" using ulp_pos [of x] by (simp add: pos_le_divide_eq)
  then have "1 \<le> roundHalfEven (x / ulp x)" by (rule roundHalfEven_ge)
  then have "(1::real) \<le> of_int (roundHalfEven (x / ulp x))" by simp
  then have "ulp x * 1 \<le> ulp x * of_int (roundHalfEven (x / ulp x))"
    using ulp_pos [of x] by (intro mult_left_mono) auto
  then have "ulp x \<le> ulp x * of_int (roundHalfEven (x / ulp x))" by (simp only: mult_1_right)
  with ulp_ge [of x] have "2 powi (- 1074) \<le> ulp x * of_int (roundHalfEven (x / ulp x))"
    by (rule order_trans)
  then show ?thesis
    using xpos by (auto simp: roundToDouble_def Let_def)
qed

lemma roundToDouble_Finite_less:
  "roundToDouble s x = Finite t y \<Longrightarrow> y < 2 ^ 1024"
  by (auto simp: roundToDouble_def Let_def split: if_splits)

lemma roundToDouble_overflow:
  assumes "2 ^ 1024 \<le> x"
  shows "roundToDouble s x = Infinity s"
proof -
  have "(2::real) powi 1024 \<le> x" using assms by simp
  from roundToDouble_lower [OF this, of s] show ?thesis
  proof
    assume "\<exists>y. roundToDouble s x = Finite s y \<and> 2 powi 1024 \<le> y"
    then obtain y where "roundToDouble s x = Finite s y" "2 powi 1024 \<le> y" by blast
    with roundToDouble_Finite_less [of s x s y] show ?thesis by simp
  qed simp
qed

subsection \<open>Doubles that are written out\<close>

text \<open>An integer below \<open>2 ^ 53\<close> is a double. The decimal literals that occur below, each
  with the double that it denotes.\<close>

lemma roundToDouble_int:
  assumes "0 \<le> n" "n < 2 ^ 53"
  shows "roundToDouble s (of_int n) = Finite s (of_int n)"
proof (cases "n = 0")
  case True
  then show ?thesis by (simp add: roundToDouble_def)
next
  case False
  with assms have n1: "1 \<le> n" by simp
  define x :: real where "x = of_int n"
  define e where "e = \<lfloor>log 2 x\<rfloor>"
  have x1: "1 \<le> x" using n1 by (simp add: x_def)
  then have xpos: "0 < x" by simp
  have "(2::real) powi 0 \<le> x" using x1 by simp
  then have e0: "0 \<le> e" unfolding e_def by (rule floor_log2_ge)
  have "x < 2 ^ 53" using assms(2) unfolding x_def
    by (metis of_int_less_iff of_int_numeral of_int_power)
  have e52: "e \<le> 52"
  proof (rule ccontr)
    assume "\<not> e \<le> 52"
    then have "53 \<le> e" by simp
    then have "(2::real) powi 53 \<le> 2 powi e" by (intro power_int_increasing) auto
    with floor_log2_bounds(1) [OF xpos] \<open>x < 2 ^ 53\<close> show False by (simp add: e_def)
  qed
  have ex: "exponentOf x = e" using e0 by (simp add: exponentOf_def e_def)
  have u: "ulp x = 2 powi (e - 52)" by (simp add: ulp_def ex)
  have "(2::real) powi (e - 52) * 2 powi (52 - e) = 2 powi ((e - 52) + (52 - e))"
    by (rule power_int_add [symmetric]) simp
  then have inv: "(2::real) powi (e - 52) * 2 powi (52 - e) = 1" by simp
  have p: "(2::real) powi (52 - e) = of_int (2 ^ nat (52 - e))"
    using e52 by (simp add: power_int_def)
  have "x / ulp x = x * 2 powi (52 - e)"
    unfolding u using inv by (simp add: field_simps)
  also have "\<dots> = of_int (n * 2 ^ nat (52 - e))" unfolding p x_def by simp
  finally have q: "x / ulp x = of_int (n * 2 ^ nat (52 - e))" .
  have "ulp x * of_int (roundHalfEven (x / ulp x)) = ulp x * (x / ulp x)"
    unfolding q roundHalfEven_int ..
  also have "\<dots> = x" using ulp_pos [of x] by simp
  finally have y: "ulp x * of_int (roundHalfEven (x / ulp x)) = x" .
  have "x < 2 ^ 1024"
  proof -
    have "(2::real) ^ 53 \<le> 2 ^ 1024" by (rule power_increasing) auto
    with \<open>x < 2 ^ 53\<close> show ?thesis by linarith
  qed
  then show ?thesis
    using xpos y unfolding x_def [symmetric] by (simp add: roundToDouble_def Let_def)
qed

lemma roundToDouble_numeral [simp]:
  "(numeral k :: int) < 2 ^ 53 \<Longrightarrow> roundToDouble s (numeral k) = Finite s (numeral k)"
  using roundToDouble_int [of "numeral k" s] by simp

lemma roundToDouble_0 [simp]: "roundToDouble s 0 = Finite s 0"
  by (simp add: roundToDouble_def)

lemma roundToDouble_1 [simp]: "roundToDouble s 1 = Finite s 1"
  using roundToDouble_int [of 1 s] by simp





lemma literal_065: "numberLiteral (13 / 20) = Finite False (5854679515581645 / 9007199254740992)"
  unfolding numberLiteral_def
  by (simp add: roundToDouble_exponent [of "- 1"] roundHalfEven_def power_int_minus Let_def)

lemma literal_1e200:
  "numberLiteral (10 ^ 200) = Finite False 99999999999999996973312221251036165947450327545502362648241750950346848435554075534196338404706251868027512415973882408182135734368278484639385041047239877871023591066789981811181813306167128854888448"
  unfolding numberLiteral_def
  by (simp add: roundToDouble_exponent [of 664] roundHalfEven_def power_int_minus Let_def)

lemma literal_1em200:
  "numberLiteral (1 / 10 ^ 200) = Finite False (1723641332219371 / 2 ^ 715)"
  unfolding numberLiteral_def
  by (simp add: roundToDouble_exponent [of "- 665"] roundHalfEven_def power_int_minus Let_def)

lemma sqrt_2_double:
  "roundToDouble False (sqrt 2) = Finite False (6369051672525773 / 4503599627370496)"
proof -
  have lo: "2 powi 0 \<le> sqrt 2" by simp
  have hi: "sqrt 2 < 2 powi (0 + 1)"
    using real_less_lsqrt [of 2 2] by simp
  have a: "of_int 6369051672525773 - 1 / 2 < sqrt 2 / 2 powi (0 - 52)"
  proof -
    have "((6369051672525773 - 1 / 2) / 2 ^ 52)\<^sup>2 < (2::real)" by (simp add: power2_eq_square)
    then have "(6369051672525773 - 1 / 2) / 2 ^ 52 < sqrt 2" by (rule real_less_rsqrt)
    then show ?thesis by (simp add: power_int_minus field_simps)
  qed
  have b: "sqrt 2 / 2 powi (0 - 52) < of_int 6369051672525773 + 1 / 2"
  proof -
    have "(2::real) < ((6369051672525773 + 1 / 2) / 2 ^ 52)\<^sup>2" by (simp add: power2_eq_square)
    then have "sqrt 2 < (6369051672525773 + 1 / 2) / 2 ^ 52"
      by (intro real_less_lsqrt) auto
    then show ?thesis by (simp add: power_int_minus field_simps)
  qed
  have r: "roundHalfEven (sqrt 2 * 4503599627370496) = 6369051672525773"
    using roundHalfEven_near [OF a b] by (simp add: power_int_minus)
  show ?thesis
    using roundToDouble_exponent [OF lo hi, of False]
    by (simp add: power_int_minus r Let_def)
qed



lemma sqrt_25: "sqrt 25 = 5"
proof -
  have "sqrt ((5::real)\<^sup>2) = 5" by simp
  then show ?thesis by simp
qed

subsection \<open>Sums of squares and norms\<close>

text \<open>A sum of squares is a \<open>sumValue\<close> and a norm is a \<open>normValue\<close>; the product of two
  norms that are not zero is not zero.\<close>

lemma MIN_VALUE_pos: "0 < MIN_VALUE"
  by (simp add: MIN_VALUE_def)

lemma isZero_Finite [simp]: "isZero (Finite s m) = (m = 0)"
  by (simp add: isZero_def positiveZero_def valueOf_def)

lemma isZero_others [simp]: "\<not> isZero (Infinity s)" "\<not> isZero NaN"
  by (simp_all add: isZero_def positiveZero_def)

lemma roundToDouble_sumValue: "0 \<le> x \<Longrightarrow> sumValue (roundToDouble False x)"
  using roundToDouble_cases [of x False] by (auto simp: MIN_VALUE_def)

lemma square_sumValue: "sumValue (js_mul x x)"
  by (cases x) (simp_all add: roundToDouble_sumValue)

lemma add_sumValue:
  assumes "sumValue x" "sumValue y"
  shows "sumValue (js_add x y)"
proof (cases x)
  case x: (Finite s m)
  show ?thesis
  proof (cases y)
    case y: (Finite t n)
    have m: "0 \<le> m" and n: "0 \<le> n" and s: "s = False" and t: "t = False"
      using assms MIN_VALUE_pos unfolding x y by auto
    show ?thesis
    proof (cases "m + n = 0")
      case True
      then show ?thesis unfolding x y s t by (simp add: valueOf_def)
    next
      case False
      have "0 \<le> m + n" using m n by simp
      then have "sumValue (roundToDouble False (m + n))" by (rule roundToDouble_sumValue)
      moreover have "js_add x y = roundToDouble False (m + n)"
        unfolding x y s t using False m n by (simp add: valueOf_def)
      ultimately show ?thesis by simp
    qed
  qed (use assms x in auto)
qed (use assms in \<open>cases y; auto\<close>)+

lemma foldl_sumValue:
  "sumValue acc \<Longrightarrow> sumValue (foldl (\<lambda>acc x. js_add acc (js_mul x x)) acc v)"
  by (induction v arbitrary: acc) (simp_all add: add_sumValue square_sumValue)

lemma sumOfSquares_sumValue: "sumValue (sumOfSquares v)"
  unfolding sumOfSquares_def
  by (rule foldl_sumValue) (simp add: positiveZero_def)

lemma sqrt_MIN_VALUE: "MIN_VALUE \<le> m \<Longrightarrow> 2 powi (- 537) \<le> sqrt m"
proof -
  assume a: "MIN_VALUE \<le> m"
  have "((2::real) powi (- 537))\<^sup>2 = 2 powi (- 537) * 2 powi (- 537)"
    by (rule power2_eq_square)
  also have "\<dots> = 2 powi (- 537 + - 537)"
    by (rule power_int_add [symmetric]) simp
  also have "\<dots> = MIN_VALUE" by (simp add: MIN_VALUE_def)
  finally have "((2::real) powi (- 537))\<^sup>2 \<le> m" using a by simp
  then show ?thesis by (rule real_le_rsqrt)
qed

lemma sqrt_normValue:
  assumes "sumValue x"
  shows "normValue (js_sqrt x)"
proof (cases x)
  case x: (Finite s m)
  show ?thesis
  proof (cases "m = 0")
    case True
    then show ?thesis using assms unfolding x by simp
  next
    case False
    with assms have s: "s = False" and m: "MIN_VALUE \<le> m" unfolding x by auto
    from roundToDouble_lower [OF sqrt_MIN_VALUE [OF m], of False]
    have "normValue (roundToDouble False (sqrt m))" by auto
    then show ?thesis unfolding x s using False by simp
  qed
qed (use assms in auto)

lemma euclideanNorm_normValue: "normValue (euclideanNorm v)"
  unfolding euclideanNorm_def by (rule sqrt_normValue [OF sumOfSquares_sumValue])

lemma product_of_norms:
  assumes "normValue x" "normValue y" "\<not> isZero x" "\<not> isZero y"
  shows "\<not> isZero (js_mul x y)"
proof (cases x)
  case x: (Finite s m)
  show ?thesis
  proof (cases y)
    case y: (Finite t n)
    have m: "2 powi (- 537) \<le> m" and n: "2 powi (- 537) \<le> n"
      using assms unfolding x y by auto
    have p: "0 \<le> (2::real) powi (- 537)" by simp
    have "(2::real) powi (- 537) * 2 powi (- 537) \<le> m * n"
      using m n p by (intro mult_mono) auto
    moreover have "(2::real) powi (- 537) * 2 powi (- 537) = 2 powi (- 537 + - 537)"
      by (rule power_int_add [symmetric]) simp
    ultimately have "2 powi (- 1074) \<le> m * n" by simp
    from roundToDouble_lower_tiny [OF this, of "s \<noteq> t"]
    have "\<not> isZero (roundToDouble (s \<noteq> t) (m * n))"
      using MIN_VALUE_pos unfolding MIN_VALUE_def by auto
    then show ?thesis unfolding x y by simp
  qed (use assms x in auto)
qed (use assms in \<open>cases y; auto\<close>)+

section \<open>Properties of the vector embeddings service\<close>

subsection \<open>The similarity loop\<close>

lemma cosineLoop_folds:
  assumes "length a = length b"
  shows "cosineLoop a b i (d, na, nb) =
     (foldl (\<lambda>acc (x, y). js_add acc (js_mul x y)) d (drop i (zip a b)),
      foldl (\<lambda>acc x. js_add acc (js_mul x x)) na (drop i a),
      foldl (\<lambda>acc x. js_add acc (js_mul x x)) nb (drop i b))"
  using assms
proof (induction a b i "(d, na, nb)" arbitrary: d na nb rule: cosineLoop.induct)
  case (1 vectorA vectorB i dotProduct normA normB)
  show ?case
  proof (cases "i < length vectorA")
    case True
    then have ib: "i < length vectorB" using "1.prems" by simp
    have da: "drop i vectorA = vectorA ! i # drop (Suc i) vectorA"
      using True by (simp add: Cons_nth_drop_Suc)
    have db: "drop i vectorB = vectorB ! i # drop (Suc i) vectorB"
      using ib by (simp add: Cons_nth_drop_Suc)
    have dz: "drop i (zip vectorA vectorB)
                = (vectorA ! i, vectorB ! i) # drop (Suc i) (zip vectorA vectorB)"
      using True ib by (simp add: Cons_nth_drop_Suc [symmetric])
    from "1.hyps" [OF True "1.prems"] True show ?thesis
      unfolding da db dz by (simp add: cosineLoop.simps [of vectorA vectorB i])
  next
    case False
    then show ?thesis using "1.prems" by (simp add: cosineLoop.simps [of vectorA vectorB i])
  qed
qed

lemma calculateCosineSimilarity_closed_form:
  assumes "length a = length b"
  shows "calculateCosineSimilarity a b =
           Inr (if isZero (euclideanNorm a) \<or> isZero (euclideanNorm b) then positiveZero
                else js_div (dotProductOf a b) (js_mul (euclideanNorm a) (euclideanNorm b)))"
  using assms cosineLoop_folds [OF assms, of 0 positiveZero positiveZero positiveZero]
  by (simp add: calculateCosineSimilarity_def euclideanNorm_def sumOfSquares_def
      dotProductOf_def isZero_def)

lemma calculateCosineSimilarity_mismatch:
  "length vectorA \<noteq> length vectorB \<Longrightarrow>
     calculateCosineSimilarity vectorA vectorB = Inl (Thrown ''Vector dimensions must match'')"
  by (simp add: calculateCosineSimilarity_def)

lemma foldl_zero_squares:
  "list_all isZero v \<Longrightarrow>
     foldl (\<lambda>acc x. js_add acc (js_mul x x)) positiveZero v = positiveZero"
proof (induction v)
  case Nil
  then show ?case by simp
next
  case (Cons x v)
  from Cons.prems obtain s where "x = Finite s 0"
    by (cases x) auto
  then have "js_add positiveZero (js_mul x x) = positiveZero"
    by (simp add: positiveZero_def roundToDouble_def valueOf_def)
  with Cons show ?case by simp
qed

lemma zero_vector_norm: "list_all isZero v \<Longrightarrow> isZero (euclideanNorm v)"
  by (simp add: euclideanNorm_def sumOfSquares_def foldl_zero_squares)
    (simp add: positiveZero_def)

lemmas number_eval =
  calculateCosineSimilarity_closed_form euclideanNorm_def sumOfSquares_def dotProductOf_def
  positiveZero_def valueOf_def

text \<open>
  The computation at three inputs where the arithmetic of the doubles shows: the squares
  of \<open>1e200\<close> overflow, and the quotient of two infinities is \<open>NaN\<close>; the squares of
  \<open>1e-200\<close> underflow to zero, and the result is the literal 0; for the vector \<open>(1, 1)\<close>
  and itself the square root of 2 is rounded, and the result is the double below 1.
\<close>

lemma cosine_overflow:
  "calculateCosineSimilarity [numberLiteral (10 ^ 200)] [numberLiteral (10 ^ 200)] = Inr NaN"
  unfolding literal_1e200
  by (simp add: number_eval roundToDouble_overflow)

lemma cosine_underflow:
  "calculateCosineSimilarity [numberLiteral (1 / 10 ^ 200)] [numberLiteral (1 / 10 ^ 200)]
     = Inr positiveZero"
  unfolding literal_1em200
  by (simp add: number_eval roundToDouble_subnormal roundHalfEven_def power_int_minus Let_def)

lemma cosine_rounding:
  "calculateCosineSimilarity [Finite False 1, Finite False 1] [Finite False 1, Finite False 1]
     = Inr (Finite False (4503599627370495 / 4503599627370496))"
proof -
  have p: "roundToDouble False
             (6369051672525773 / 4503599627370496 * (6369051672525773 / 4503599627370496))
           = Finite False (4503599627370497 / 2251799813685248)"
    by (simp add: roundToDouble_exponent [of 1] roundHalfEven_def power_int_minus Let_def)
  have q: "roundToDouble False (2 / (4503599627370497 / 2251799813685248))
           = Finite False (4503599627370495 / 4503599627370496)"
    by (simp add: roundToDouble_exponent [of "- 1"] roundHalfEven_def power_int_minus Let_def)
  show ?thesis
    using p q by (simp add: number_eval sqrt_2_double)
qed

text \<open>
  Claim C10. For two vectors of equal length the cosine-similarity computation returns a
  number, and it never divides by zero: when the norm of either vector is zero, as it is
  for a vector all of whose components are zero, the result is the literal 0 and nothing
  is divided; otherwise the result is the quotient of the dot product by the product of
  the two norms, and that product is not zero, since a norm that is not zero is at least
  the square root of the least positive double. For vectors of unequal length it throws
  the error \<^verbatim>\<open>Vector dimensions must match\<close> and computes no value.
\<close>

theorem calculateCosineSimilarity_division_safe:
  "(length vectorA \<noteq> length vectorB \<longrightarrow>
      calculateCosineSimilarity vectorA vectorB = Inl (Thrown ''Vector dimensions must match''))
   \<and> (length vectorA = length vectorB \<longrightarrow>
      (\<exists>r. calculateCosineSimilarity vectorA vectorB = Inr r)
      \<and> (isZero (euclideanNorm vectorA) \<or> isZero (euclideanNorm vectorB) \<longrightarrow>
           calculateCosineSimilarity vectorA vectorB = Inr positiveZero)
      \<and> (list_all isZero vectorA \<or> list_all isZero vectorB \<longrightarrow>
           calculateCosineSimilarity vectorA vectorB = Inr positiveZero)
      \<and> (\<not> isZero (euclideanNorm vectorA) \<and> \<not> isZero (euclideanNorm vectorB) \<longrightarrow>
           calculateCosineSimilarity vectorA vectorB
             = Inr (js_div (dotProductOf vectorA vectorB)
                      (js_mul (euclideanNorm vectorA) (euclideanNorm vectorB)))
           \<and> \<not> isZero (js_mul (euclideanNorm vectorA) (euclideanNorm vectorB))))"
proof -
  have z: "isZero (euclideanNorm vectorA) \<or> isZero (euclideanNorm vectorB)"
    if "list_all isZero vectorA \<or> list_all isZero vectorB"
    using that zero_vector_norm by blast
  have p: "\<not> isZero (js_mul (euclideanNorm vectorA) (euclideanNorm vectorB))"
    if "\<not> isZero (euclideanNorm vectorA)" "\<not> isZero (euclideanNorm vectorB)"
    using product_of_norms [OF euclideanNorm_normValue euclideanNorm_normValue that] .
  show ?thesis
    using z p
    by (auto simp: calculateCosineSimilarity_mismatch calculateCosineSimilarity_closed_form)
qed

theorem calculateCosineSimilarity_division_safe_witness:
  "calculateCosineSimilarity [Finite False 1] [Finite False 1, Finite False 2]
     = Inl (Thrown ''Vector dimensions must match'')
   \<and> list_all isZero [Finite False 0, Finite True 0]
   \<and> isZero (euclideanNorm [Finite False 0, Finite True 0])
   \<and> calculateCosineSimilarity [Finite False 0, Finite True 0] [Finite False 3, Finite False 4]
       = Inr positiveZero
   \<and> \<not> isZero (euclideanNorm [Finite False 3, Finite False 4])
   \<and> calculateCosineSimilarity [Finite False 3, Finite False 4] [Finite False 3, Finite False 4]
       = Inr (Finite False 1)
   \<and> \<not> isZero (js_mul (euclideanNorm [Finite False 3, Finite False 4])
                (euclideanNorm [Finite False 3, Finite False 4]))"
proof -
  have n0: "euclideanNorm [Finite False 0, Finite True 0] = Finite False 0"
    by (simp add: euclideanNorm_def sumOfSquares_def positiveZero_def valueOf_def)
  have n5: "euclideanNorm [Finite False 3, Finite False 4] = Finite False 5"
    by (simp add: euclideanNorm_def sumOfSquares_def positiveZero_def valueOf_def sqrt_25)
  have d: "dotProductOf [Finite False 3, Finite False 4] [Finite False 3, Finite False 4]
             = Finite False 25"
    by (simp add: dotProductOf_def positiveZero_def valueOf_def)
  show ?thesis
    using calculateCosineSimilarity_division_safe [of "[Finite False 1]"
        "[Finite False 1, Finite False 2]"]
      calculateCosineSimilarity_division_safe [of "[Finite False 0, Finite True 0]"
        "[Finite False 3, Finite False 4]"]
      calculateCosineSimilarity_division_safe [of "[Finite False 3, Finite False 4]"
        "[Finite False 3, Finite False 4]"]
    by (simp add: n0 n5 d)
qed

subsection \<open>The semantic search\<close>























lemma js_ge_not_NaN: "js_ge a b \<Longrightarrow> a \<noteq> NaN"
  by (cases a) auto

lemma descendingKey_ge:
  "descendingKey a \<le> descendingKey b \<Longrightarrow> a \<noteq> NaN \<Longrightarrow> b \<noteq> NaN \<Longrightarrow> js_ge a b"
  by (cases a; cases b) (auto simp: less_eq_prod_def split: if_splits)

lemma sorted_take5:
  assumes "\<forall>h \<in> set results. js_ge (hit_similarity h) threshold"
  shows "sorted_wrt (\<lambda>a b. js_ge (hit_similarity a) (hit_similarity b))
           (take 5 (sortBySimilarity results))"
proof -
  have "sorted (map (\<lambda>h. descendingKey (hit_similarity h)) (sortBySimilarity results))"
    unfolding sortBySimilarity_def by (rule sorted_sort_key)
  then have s: "sorted_wrt (\<lambda>a b. descendingKey (hit_similarity a) \<le> descendingKey (hit_similarity b))
                  (sortBySimilarity results)"
    by (simp add: sorted_map)
  have n: "hit_similarity h \<noteq> NaN" if "h \<in> set (sortBySimilarity results)" for h
    using that assms js_ge_not_NaN by (auto simp: sortBySimilarity_def)
  have "sorted_wrt (\<lambda>a b. js_ge (hit_similarity a) (hit_similarity b))
          (sortBySimilarity results)"
    by (rule sorted_wrt_mono_rel [OF _ s]) (simp add: descendingKey_ge n)
  then show ?thesis by (rule sorted_wrt_take)
qed











section \<open>Properties of the auto-responder service\<close>

subsection \<open>classifyEmail\<close>

lemma classifyEmail_returns: "\<exists>r. classifyEmail env emailContent subject userId = Inr r"
  by (simp add: classifyEmail_def split: sum.split)

text \<open>
  Claim C8. \<^verbatim>\<open>classifyEmail\<close> never throws. When the call it makes fails (the grounded
  classifier for a given account id, the completion call otherwise) it returns the degraded
  result: category general, confidence 30, priority medium.
\<close>

theorem classifyEmail_degraded_on_failure:
  "(\<exists>r. classifyEmail env emailContent subject userId = Inr r)
   \<and> (truthy userId
        \<and> classifyWithGrounding env (orDefault userId []) emailContent subject = Inl err
        \<longrightarrow> classifyEmail env emailContent subject userId = Inr degradedResult)
   \<and> (\<not> truthy userId \<and> chatCompletion env subject emailContent = Inl err
        \<longrightarrow> classifyEmail env emailContent subject userId = Inr degradedResult)"
  by (simp add: classifyEmail_def classifyEmail_try_def degradedResult_def split: sum.split)

theorem classifyEmail_degraded_on_failure_witness:
  "truthy (Some ''account-1'')
   \<and> classifyWithGrounding failingEnv (orDefault (Some ''account-1'') [])
         ''Where is my order?'' ''Order'' = Inl (Thrown ''grounding unavailable'')
   \<and> classifyEmail failingEnv ''Where is my order?'' ''Order'' (Some ''account-1'')
       = Inr degradedResult
   \<and> \<not> truthy None
   \<and> chatCompletion failingEnv ''Order'' ''Where is my order?''
       = Inl (Thrown ''completion failed'')
   \<and> classifyEmail failingEnv ''Where is my order?'' ''Order'' None = Inr degradedResult"
  using classifyEmail_degraded_on_failure
      [of failingEnv "''Where is my order?''" "''Order''" "Some ''account-1''"
        "Thrown ''grounding unavailable''"]
    classifyEmail_degraded_on_failure
      [of failingEnv "''Where is my order?''" "''Order''" None "Thrown ''completion failed''"]
  by (simp add: failingEnv_def truthy_def orDefault_def)

subsection \<open>calculateSentimentAwareConfidence\<close>

lemma confidenceAdjustmentOf_spec:
  "confidenceAdjustmentOf sr =
     specAdjustment (sa_sentiment sr) (orNumber (sa_negative sr) 0)
       (orNumber (sa_confidence sr) 0)"
  by (simp add: confidenceAdjustmentOf_def specAdjustment_def Let_def)

text \<open>
  Claim C9, as stated, asks that the result lies in the interval from 10 to 95 for every
  base confidence. When the sentiment service throws, the method returns the base
  confidence as it is: with the base confidence 100 the result is 100.
\<close>

theorem calculateSentimentAwareConfidence_unclamped_on_failure:
  "\<not> (calculateSentimentAwareConfidence failingEnv 100 exampleData ''account-1'' \<le> 95)"
  by (simp add: calculateSentimentAwareConfidence_def failingEnv_def)

text \<open>
  Claim C9, amended. When the sentiment service answers, the result is the base confidence
  plus the adjustment of the specification (minus 25, minus 15, minus 8 for negative
  sentiment by score and confidence, plus 5 for positive sentiment with confidence above
  80, otherwise 0), clamped to the interval from 10 to 95. When the sentiment service throws,
  the result is the base confidence, unchanged.
\<close>

theorem calculateSentimentAwareConfidence_adjusts_and_clamps:
  "(analyzeSentiment env (ed_body emailData) = Inr sr \<longrightarrow>
      calculateSentimentAwareConfidence env baseConfidence emailData userId
        = max 10 (min 95 (baseConfidence
            + specAdjustment (sa_sentiment sr) (orNumber (sa_negative sr) 0)
                (orNumber (sa_confidence sr) 0)))
      \<and> 10 \<le> calculateSentimentAwareConfidence env baseConfidence emailData userId
      \<and> calculateSentimentAwareConfidence env baseConfidence emailData userId \<le> 95)
   \<and> (analyzeSentiment env (ed_body emailData) = Inl err \<longrightarrow>
      calculateSentimentAwareConfidence env baseConfidence emailData userId = baseConfidence)"
  by (simp add: calculateSentimentAwareConfidence_def confidenceAdjustmentOf_spec
      Math_round_def Let_def)

theorem calculateSentimentAwareConfidence_adjusts_and_clamps_witness:
  "analyzeSentiment
       (exampleEnv (exampleClassification ''general'' 80)
          (Inr (exampleSentiment ''NEGATIVE'' 92 95))) (ed_body exampleData)
     = Inr (exampleSentiment ''NEGATIVE'' 92 95)
   \<and> calculateSentimentAwareConfidence
       (exampleEnv (exampleClassification ''general'' 80)
          (Inr (exampleSentiment ''NEGATIVE'' 92 95))) 80 exampleData ''account-1'' = 55
   \<and> calculateSentimentAwareConfidence
       (exampleEnv (exampleClassification ''general'' 80)
          (Inr (exampleSentiment ''NEGATIVE'' 92 95))) 20 exampleData ''account-1'' = 10
   \<and> analyzeSentiment failingEnv (ed_body exampleData) = Inl (Thrown ''sentiment unavailable'')
   \<and> calculateSentimentAwareConfidence failingEnv 80 exampleData ''account-1'' = 80"
  using calculateSentimentAwareConfidence_adjusts_and_clamps
      [of "exampleEnv (exampleClassification ''general'' 80)
             (Inr (exampleSentiment ''NEGATIVE'' 92 95))"
        exampleData "exampleSentiment ''NEGATIVE'' 92 95" 80 "''account-1''"
        "Thrown ''sentiment unavailable''"]
    calculateSentimentAwareConfidence_adjusts_and_clamps
      [of "exampleEnv (exampleClassification ''general'' 80)
             (Inr (exampleSentiment ''NEGATIVE'' 92 95))"
        exampleData "exampleSentiment ''NEGATIVE'' 92 95" 20 "''account-1''"
        "Thrown ''sentiment unavailable''"]
    calculateSentimentAwareConfidence_adjusts_and_clamps
      [of failingEnv exampleData "exampleSentiment ''NEGATIVE'' 92 95" 80 "''account-1''"
        "Thrown ''sentiment unavailable''"]
  by (simp add: exampleEnv_def failingEnv_def exampleSentiment_def specAdjustment_def
      orNumber_def)

subsection \<open>The storage operations\<close>

lemma createEmail_effect:
  "createEmail s userId d status = (email, s1) \<Longrightarrow>
     em_id email = length (emails s) \<and> em_status email = status
     \<and> em_messageId email = ed_messageId d \<and> em_escalationReason email = None
     \<and> emails s1 = emails s @ [email]
     \<and> escalationQueue s1 = escalationQueue s \<and> deliveries s1 = deliveries s
     \<and> approvalItems s1 = approvalItems s \<and> autoResponderRules s1 = autoResponderRules s
     \<and> systemSettings s1 = systemSettings s"
  by (auto simp: createEmail_def Let_def)

lemma updateEmail_effect [simp]:
  "emails (updateEmail s k change) = map (\<lambda>e. if em_id e = k then change e else e) (emails s)"
  "escalationQueue (updateEmail s k change) = escalationQueue s"
  "deliveries (updateEmail s k change) = deliveries s"
  "approvalItems (updateEmail s k change) = approvalItems s"
  "autoResponderRules (updateEmail s k change) = autoResponderRules s"
  "systemSettings (updateEmail s k change) = systemSettings s"
  by (simp_all add: updateEmail_def)

lemma find_Some_member: "find P xs = Some x \<Longrightarrow> x \<in> set xs \<and> P x"
  by (induction xs) (auto split: if_splits)

subsection \<open>escalateEmail\<close>

lemma escalateEmail_effect:
  "escalateEmail s emailId userId c reason = (p, s') \<Longrightarrow>
     pe_escalated p \<and> \<not> pe_autoResponseSent p \<and> pe_id p = emailId
     \<and> emails s' = map (\<lambda>e. if em_id e = emailId
                             then e\<lparr>em_status := ''escalated'',
                                    em_escalationReason := Some (orDefault reason
              (''Low confidence classification ('' @ numberToString (cr_confidence c)
               @ ''%) or complex inquiry requiring human review''))\<rparr>
                             else e) (emails s)
     \<and> escalationQueue s' = escalationQueue s @
          [\<lparr>eq_emailId = emailId, eq_userId = userId,
            eq_priority = (case cr_priority c of Some q \<Rightarrow> q
                           | None \<Rightarrow> if cr_confidence c < 40 then high else medium),
            eq_reason = orDefault reason
              (''Low confidence classification ('' @ numberToString (cr_confidence c)
               @ ''%) or complex inquiry requiring human review''),
            eq_status = ''pending''\<rparr>]
     \<and> deliveries s' = deliveries s \<and> approvalItems s' = approvalItems s
     \<and> autoResponderRules s' = autoResponderRules s \<and> systemSettings s' = systemSettings s"
  by (auto simp: escalateEmail_def Let_def updateEmail_def createEscalationQueue_def
      createActivityLog_def)

subsection \<open>The stretches of processIncomingEmail\<close>

lemma processIncomingEmail_classified:
  assumes "classifyEmail env (ed_body d) (ed_subject d) (Some u) = Inr c"
    and "createEmail s u d ''processing'' = (email, s1)"
  shows "processIncomingEmail env s u d =
           routeClassified env s1 u d email c
             (sentimentCheck (analyzeSentiment env (ed_body d)))"
  using assms by (simp add: processIncomingEmail_def afterCreateEmail_def)

lemma routeClassified_low_confidence:
  assumes "cr_confidence c < 60 \<or> cr_classification c = ''escalation''"
  shows "routeClassified env s1 u d email c (False, r) =
           (case escalateEmail
                   (updateEmail s1 (em_id email)
                      (\<lambda>e. e\<lparr>em_classification := Some (cr_classification c),
                              em_confidence := Some (cr_confidence c),
                              em_classificationReasoning := Some (cr_reasoning c)\<rparr>))
                   (em_id email) u c None of
              (p, s') \<Rightarrow> (Inr p, s'))"
  using assms by (auto simp: routeClassified_def Let_def)

subsection \<open>Escalation on low confidence\<close>

text \<open>
  Claim C5. When the sentiment check did not trigger an escalation and the confidence of the
  classification is below 60 or its category is \<^verbatim>\<open>escalation\<close>, the invocation returns
  with \<^verbatim>\<open>escalated: true\<close>, the Message has the status \<^verbatim>\<open>escalated\<close>, and the reason
  recorded on the Message and in the escalation queue is the text
  \<^verbatim>\<open>Low confidence classification (N%) or complex inquiry requiring human review\<close>, which
  begins with the words "Low confidence". No delivery is attempted.
\<close>

theorem low_confidence_escalates:
  assumes cls: "classifyEmail env (ed_body d) (ed_subject d) (Some u) = Inr c"
    and nosent: "\<not> fst (sentimentCheck (analyzeSentiment env (ed_body d)))"
    and low: "cr_confidence c < 60 \<or> cr_classification c = ''escalation''"
  shows "\<exists>p s'. processIncomingEmail env s u d = (Inr p, s')
           \<and> pe_escalated p \<and> \<not> pe_autoResponseSent p
           \<and> em_status (createdMessage s s') = ''escalated''
           \<and> em_escalationReason (createdMessage s s')
               = Some (''Low confidence classification ('' @ numberToString (cr_confidence c)
                       @ ''%) or complex inquiry requiring human review'')
           \<and> eq_emailId (last (escalationQueue s')) = length (emails s)
           \<and> eq_reason (last (escalationQueue s'))
               = ''Low confidence classification ('' @ numberToString (cr_confidence c)
                 @ ''%) or complex inquiry requiring human review''
           \<and> startsWith (eq_reason (last (escalationQueue s'))) ''Low confidence''
           \<and> deliveries s' = deliveries s"
proof -
  obtain email s1 where ce: "createEmail s u d ''processing'' = (email, s1)"
    by (cases "createEmail s u d ''processing''") auto
  obtain r where sc: "sentimentCheck (analyzeSentiment env (ed_body d)) = (False, r)"
    using nosent by (cases "sentimentCheck (analyzeSentiment env (ed_body d))") auto
  let ?s2 = "updateEmail s1 (em_id email)
               (\<lambda>e. e\<lparr>em_classification := Some (cr_classification c),
                       em_confidence := Some (cr_confidence c),
                       em_classificationReasoning := Some (cr_reasoning c)\<rparr>)"
  obtain p s' where esc: "escalateEmail ?s2 (em_id email) u c None = (p, s')"
    by (cases "escalateEmail ?s2 (em_id email) u c None") auto
  have run: "processIncomingEmail env s u d = (Inr p, s')"
    by (simp add: processIncomingEmail_classified [OF cls ce] sc
        routeClassified_low_confidence [OF low] esc)
  note c1 = createEmail_effect [OF ce]
  note e1 = escalateEmail_effect [OF esc]
  have msg: "createdMessage s s' =
               email\<lparr>em_classification := Some (cr_classification c),
                     em_confidence := Some (cr_confidence c),
                     em_classificationReasoning := Some (cr_reasoning c),
                     em_status := ''escalated'',
                     em_escalationReason := Some (''Low confidence classification (''
                       @ numberToString (cr_confidence c)
                       @ ''%) or complex inquiry requiring human review'')\<rparr>"
    using c1 e1 by (simp add: createdMessage_def nth_append orDefault_def)
  show ?thesis
    using run e1 c1 msg by (simp add: orDefault_def)
qed

subsection \<open>Strings, numbers and the sentiment check\<close>

lemma startsWith_set: "startsWith s p \<Longrightarrow> set p \<subseteq> set s"
  by (induction s p rule: startsWith.induct) auto

lemma str_includes_set: "str_includes s p \<Longrightarrow> set p \<subseteq> set s"
proof (induction s)
  case Nil
  then show ?case by simp
next
  case (Cons c cs)
  then show ?case using startsWith_set [of "c # cs" p] by auto
qed

lemma digit_char: "n < 10 \<Longrightarrow> ''0123456789'' ! n \<in> set ''0123456789''"
  by (rule nth_mem) simp

lemma digitsOf_chars: "set (digitsOf n) \<subseteq> set ''0123456789''"
proof (induction n rule: digitsOf.induct)
  case (1 n)
  show ?case
  proof (cases "n < 10")
    case True
    then show ?thesis
      using digit_char [of n] by (subst digitsOf.simps) simp
  next
    case False
    have "n mod 10 < 10" by simp
    from digit_char [OF this] "1.IH" [OF False] False show ?thesis
      by (subst digitsOf.simps) simp
  qed
qed

lemma numberToString_chars: "set (numberToString n) \<subseteq> set ''-0123456789''"
proof -
  define D where "D = set ''0123456789''"
  have eq: "set ''-0123456789'' = insert (CHR ''-'') D"
    by (simp add: D_def)
  have d: "set (digitsOf k) \<subseteq> D" for k
    unfolding D_def by (rule digitsOf_chars)
  show ?thesis
    unfolding eq numberToString_def using d [of "nat n"] d [of "nat (- n)"] by auto
qed

lemma very_angry_included: "str_includes (''Very angry customer detected ('' @ rest) ''Very angry''"
  by simp

lemma highly_frustrated_not_very_angry:
  "\<not> str_includes (''Highly frustrated customer detected ('' @ numberToString n
        @ ''% negative sentiment)'') ''Very angry''"
proof
  assume "str_includes (''Highly frustrated customer detected ('' @ numberToString n
        @ ''% negative sentiment)'') ''Very angry''"
  then have sub: "set ''Very angry'' \<subseteq> set (''Highly frustrated customer detected (''
        @ numberToString n @ ''% negative sentiment)'')"
    by (rule str_includes_set)
  have "CHR ''V'' \<in> set ''Very angry''" by simp
  with sub have "CHR ''V'' \<in> set (''Highly frustrated customer detected (''
        @ numberToString n @ ''% negative sentiment)'')"
    by (rule subsetD)
  then have v: "CHR ''V'' \<in> set (numberToString n)" by simp
  have "CHR ''V'' \<notin> set ''-0123456789''" by simp
  with v numberToString_chars [of n] show False by blast
qed

lemma sentimentCheck_triggers:
  "fst (sentimentCheck answer) \<longleftrightarrow>
     (\<exists>sr. answer = Inr sr \<and> sa_sentiment sr = ''NEGATIVE''
        \<and> ((orNumber (sa_negative sr) 0 > 75 \<and> orNumber (sa_confidence sr) 0 > 90)
           \<or> (orNumber (sa_negative sr) 0 > 85 \<and> orNumber (sa_confidence sr) 0 > 80)))"
  by (cases answer) (auto simp: sentimentCheck_def Let_def)

lemma sentimentCheck_very_angry:
  assumes "sa_sentiment sr = ''NEGATIVE''"
    and "orNumber (sa_negative sr) 0 > 75" and "orNumber (sa_confidence sr) 0 > 90"
  shows "sentimentCheck (Inr sr) =
           (True, ''Very angry customer detected ('' @ numberToString (orNumber (sa_negative sr) 0)
                  @ ''% negative sentiment with ''
                  @ numberToString (orNumber (sa_confidence sr) 0) @ ''% confidence)'')"
  using assms by (simp add: sentimentCheck_def Let_def)

lemma sentimentCheck_highly_frustrated:
  assumes "sa_sentiment sr = ''NEGATIVE''"
    and "\<not> (orNumber (sa_negative sr) 0 > 75 \<and> orNumber (sa_confidence sr) 0 > 90)"
    and "orNumber (sa_negative sr) 0 > 85" and "orNumber (sa_confidence sr) 0 > 80"
  shows "sentimentCheck (Inr sr) =
           (True, ''Highly frustrated customer detected (''
                  @ numberToString (orNumber (sa_negative sr) 0) @ ''% negative sentiment)'')"
  using assms by (simp add: sentimentCheck_def Let_def)

lemma routeClassified_sentiment:
  "routeClassified env s1 u d email c (True, r) =
     (case escalateEmail
             (updateEmail s1 (em_id email)
                (\<lambda>e. e\<lparr>em_classification := Some (cr_classification c),
                        em_confidence := Some (cr_confidence c),
                        em_classificationReasoning := Some (cr_reasoning c)\<rparr>))
             (em_id email) u
             (c\<lparr>cr_priority := Some (if str_includes r ''Very angry'' then urgent else high),
                cr_priorityReasoning := Some (''Escalated due to negative sentiment: '' @ r)\<rparr>)
             (Some (''Negative sentiment detected - '' @ r)) of
        (p, s') \<Rightarrow> (Inr p, s'))"
  by (simp add: routeClassified_def Let_def)

lemma sentiment_escalation_run:
  assumes sc: "sentimentCheck (analyzeSentiment env (ed_body d)) = (True, r)"
  shows "\<exists>p s'. processIncomingEmail env s u d = (Inr p, s')
           \<and> pe_escalated p \<and> \<not> pe_autoResponseSent p
           \<and> em_status (createdMessage s s') = ''escalated''
           \<and> eq_emailId (last (escalationQueue s')) = length (emails s)
           \<and> eq_priority (last (escalationQueue s'))
               = (if str_includes r ''Very angry'' then urgent else high)
           \<and> eq_reason (last (escalationQueue s')) = ''Negative sentiment detected - '' @ r
           \<and> deliveries s' = deliveries s"
proof -
  obtain c where cls: "classifyEmail env (ed_body d) (ed_subject d) (Some u) = Inr c"
    using classifyEmail_returns by blast
  obtain email s1 where ce: "createEmail s u d ''processing'' = (email, s1)"
    by (cases "createEmail s u d ''processing''") auto
  define pr where "pr = (if str_includes r ''Very angry'' then urgent else high)"
  define reason where "reason = ''Negative sentiment detected - '' @ r"
  define c' where "c' = c\<lparr>cr_priority := Some pr,
               cr_priorityReasoning := Some (''Escalated due to negative sentiment: '' @ r)\<rparr>"
  define s2 where "s2 = updateEmail s1 (em_id email)
               (\<lambda>e. e\<lparr>em_classification := Some (cr_classification c),
                       em_confidence := Some (cr_confidence c),
                       em_classificationReasoning := Some (cr_reasoning c)\<rparr>)"
  obtain p s' where esc: "escalateEmail s2 (em_id email) u c' (Some reason) = (p, s')"
    by (cases "escalateEmail s2 (em_id email) u c' (Some reason)") auto
  have rc: "routeClassified env s1 u d email c (True, r) =
              (case escalateEmail s2 (em_id email) u c' (Some reason) of
                 (p, s') \<Rightarrow> (Inr p, s'))"
    unfolding s2_def c'_def pr_def reason_def by (rule routeClassified_sentiment)
  have run: "processIncomingEmail env s u d = (Inr p, s')"
    unfolding processIncomingEmail_classified [OF cls ce] sc rc esc by simp
  note c1 = createEmail_effect [OF ce]
  note e1 = escalateEmail_effect [OF esc]
  have nonempty: "orDefault (Some reason) x = reason" for x
    by (simp add: orDefault_def reason_def)
  have pri: "cr_priority c' = Some pr"
    by (simp add: c'_def)
  have ems: "emails s2 = map (\<lambda>e. if em_id e = em_id email
                 then e\<lparr>em_classification := Some (cr_classification c),
                       em_confidence := Some (cr_confidence c),
                       em_classificationReasoning := Some (cr_reasoning c)\<rparr> else e)
               (emails s @ [email])"
    using c1 by (simp add: s2_def)
  have st: "em_status (createdMessage s s') = ''escalated''"
    using c1 e1 ems by (simp add: createdMessage_def nth_append)
  have q: "last (escalationQueue s') =
             \<lparr>eq_emailId = em_id email, eq_userId = u, eq_priority = pr,
              eq_reason = reason, eq_status = ''pending''\<rparr>"
    using e1 by (simp add: nonempty pri)
  have dl: "deliveries s' = deliveries s"
    using e1 c1 by (simp add: s2_def)
  show ?thesis
    using run e1 c1 st q dl unfolding pr_def reason_def by simp
qed

subsection \<open>The table of Messages along the pipeline\<close>



lemma queueForApproval_throws:
  "queueForApproval env s u d email c rule =
     (Inl (ReferenceError ''responseContext is not defined''), s)"
  by (simp add: queueForApproval_def resolveIdentifier_def processIncomingEmail_scope_def
      split_beta)

lemma emails_sendEmpathicAutoResponse:
  "emails (snd (sendEmpathicAutoResponse env s u to content subject)) = emails s"
  by (simp add: sendEmpathicAutoResponse_def Let_def split: sum.split)

lemma emails_runHandler:
  "emails (snd (runHandler env s u d email c rule)) = emails s"
  by (simp add: runHandler_def emails_sendEmpathicAutoResponse split_beta split: sum.split)





subsection \<open>Routing by rule, and the status of the Message when the method returns\<close>

lemma findMatchingRule_rules:
  "autoResponderRules s' = autoResponderRules s \<Longrightarrow>
     findMatchingRule s' u category confidence = findMatchingRule s u category confidence"
  by (simp add: findMatchingRule_def getAutoResponderRules_def)

lemma routeClassified_continue:
  assumes "\<not> cr_confidence c < 60" and "cr_classification c \<noteq> ''escalation''"
  shows "routeClassified env s1 u d email c (False, r) =
           routeByRule env
             (updateEmail s1 (em_id email)
                (\<lambda>e. e\<lparr>em_classification := Some (cr_classification c),
                        em_confidence := Some (cr_confidence c),
                        em_classificationReasoning := Some (cr_reasoning c)\<rparr>))
             u d email c"
  using assms by (simp add: routeClassified_def Let_def)

lemma routeByRule_no_rule:
  assumes "findMatchingRule s u (cr_classification c) (cr_confidence c) = None"
  shows "routeByRule env s u d email c =
           (case escalateEmail s (em_id email) u c (Some ''No matching auto-responder rule'') of
              (p, s') \<Rightarrow> (Inr p, s'))"
  using assms by (simp add: routeByRule_def)

lemma routeByRule_approval:
  assumes "findMatchingRule s u (cr_classification c) (cr_confidence c) = Some rule"
    and "approvalRequiredOf (getSystemSettings s u)"
  shows "routeByRule env s u d email c =
           (Inl (ReferenceError ''responseContext is not defined''), s)"
  using assms by (simp add: routeByRule_def queueForApproval_throws)

lemma routeByRule_automation:
  assumes "findMatchingRule s u (cr_classification c) (cr_confidence c) = Some rule"
    and "\<not> approvalRequiredOf (getSystemSettings s u)"
  shows "routeByRule env s u d email c = executeAutomation env s u d email c rule"
  using assms by (simp add: routeByRule_def)

lemma messageAt_created:
  "createEmail s u d status = (email, s1) \<Longrightarrow> messageAt s1 (length (emails s))"
  by (auto simp: createEmail_def Let_def messageAt_def)

lemma messageAt_updateEmail:
  "(\<And>e. em_id (change e) = em_id e) \<Longrightarrow> messageAt s n \<Longrightarrow>
     messageAt (updateEmail s k change) n"
  by (auto simp: messageAt_def)

lemma status_escalateEmail:
  "messageAt s n \<Longrightarrow> em_status (emails (snd (escalateEmail s n u c reason)) ! n) = ''escalated''"
  by (simp add: messageAt_def escalateEmail_def Let_def createEscalationQueue_def
      createActivityLog_def updateEmail_def)

lemma messageAt_runHandler:
  "messageAt s n \<Longrightarrow> messageAt (snd (runHandler env s u d email c rule)) n"
  using emails_runHandler [of env s u d email c rule] by (simp add: messageAt_def)

lemma status_executeAutomation:
  assumes at: "messageAt s n" and id: "em_id email = n"
    and ret: "fst (executeAutomation env s u d email c rule) = Inr p"
  shows "em_status (emails (snd (executeAutomation env s u d email c rule)) ! n)
           \<in> {''resolved'', ''escalated''}"
proof -
  obtain r s' where rh: "runHandler env s u d email c rule = (r, s')"
    by (cases "runHandler env s u d email c rule") auto
  have at': "messageAt s' n"
    using messageAt_runHandler [OF at, of env u d email c rule] rh by simp
  show ?thesis
  proof (cases r)
    case (Inl err)
    with rh ret show ?thesis by (simp add: executeAutomation_def)
  next
    case (Inr ok)
    show ?thesis
    proof (cases ok)
      case True
      with Inr rh at' id show ?thesis
        by (simp add: executeAutomation_def Let_def createActivityLog_def updateEmail_def
            updateAutoResponderRule_def messageAt_def)
    next
      case False
      from status_escalateEmail [OF at', of u c "Some ''Failed to send auto-response''"]
        False Inr rh id
      show ?thesis by (simp add: executeAutomation_def split_beta)
    qed
  qed
qed

lemma status_routeByRule:
  assumes at: "messageAt s n" and id: "em_id email = n"
    and ret: "fst (routeByRule env s u d email c) = Inr p"
  shows "em_status (emails (snd (routeByRule env s u d email c)) ! n)
           \<in> {''resolved'', ''escalated''}"
proof (cases "findMatchingRule s u (cr_classification c) (cr_confidence c)")
  case None
  from status_escalateEmail [OF at, of u c "Some ''No matching auto-responder rule''"] id
  show ?thesis by (simp add: routeByRule_no_rule [OF None] split_beta)
next
  case (Some rule)
  show ?thesis
  proof (cases "approvalRequiredOf (getSystemSettings s u)")
    case True
    with ret Some show ?thesis by (simp add: routeByRule_approval)
  next
    case False
    from ret status_executeAutomation [OF at id, of env u d c rule p] show ?thesis
      by (simp add: routeByRule_automation [OF Some False])
  qed
qed

lemma status_routeClassified:
  assumes at: "messageAt s n" and id: "em_id email = n"
    and ret: "fst (routeClassified env s u d email c sentiment) = Inr p"
  shows "em_status (emails (snd (routeClassified env s u d email c sentiment)) ! n)
           \<in> {''resolved'', ''escalated''}"
proof -
  obtain b r where sent: "sentiment = (b, r)" by (cases sentiment) auto
  define s1 where "s1 = updateEmail s (em_id email)
                    (\<lambda>e. e\<lparr>em_classification := Some (cr_classification c),
                            em_confidence := Some (cr_confidence c),
                            em_classificationReasoning := Some (cr_reasoning c)\<rparr>)"
  have at1: "messageAt s1 n"
    unfolding s1_def by (rule messageAt_updateEmail [OF _ at]) simp
  show ?thesis
  proof (cases "cr_confidence c < 60 \<or> cr_classification c = ''escalation'' \<or> b")
    case True
    have "em_status (emails (snd (escalateEmail s1 n u c' reason)) ! n) = ''escalated''"
      for c' reason by (rule status_escalateEmail [OF at1])
    with True sent id show ?thesis
      unfolding routeClassified_def s1_def [symmetric]
      by (simp add: Let_def split_beta del: str_includes.simps)
  next
    case False
    with ret sent have ret1: "fst (routeByRule env s1 u d email c) = Inr p"
      unfolding routeClassified_def s1_def [symmetric] by (simp add: Let_def)
    from status_routeByRule [OF at1 id ret1] False sent show ?thesis
      unfolding routeClassified_def s1_def [symmetric] by (simp add: Let_def)
  qed
qed

lemma processIncomingEmail_returns_terminal:
  assumes "fst (processIncomingEmail env s u d) = Inr p"
  shows "em_status (createdMessage s (snd (processIncomingEmail env s u d)))
           \<in> {''resolved'', ''escalated''}"
proof -
  obtain c where cls: "classifyEmail env (ed_body d) (ed_subject d) (Some u) = Inr c"
    using classifyEmail_returns by blast
  obtain email s1 where ce: "createEmail s u d ''processing'' = (email, s1)"
    by (cases "createEmail s u d ''processing''") auto
  have at: "messageAt s1 (length (emails s))" by (rule messageAt_created [OF ce])
  have id: "em_id email = length (emails s)" using createEmail_effect [OF ce] by simp
  from assms status_routeClassified [OF at id, of env u d c
      "sentimentCheck (analyzeSentiment env (ed_body d))" p]
  show ?thesis
    by (simp add: processIncomingEmail_classified [OF cls ce] createdMessage_def)
qed

lemma approval_required_throws:
  assumes cls: "classifyEmail env (ed_body d) (ed_subject d) (Some u) = Inr c"
    and nosent: "\<not> fst (sentimentCheck (analyzeSentiment env (ed_body d)))"
    and conf: "\<not> cr_confidence c < 60" and cat: "cr_classification c \<noteq> ''escalation''"
    and rule: "findMatchingRule s u (cr_classification c) (cr_confidence c) = Some rule"
    and appr: "approvalRequiredOf (getSystemSettings s u)"
  shows "fst (processIncomingEmail env s u d) = Inl (ReferenceError ''responseContext is not defined'')
         \<and> em_status (createdMessage s (snd (processIncomingEmail env s u d))) = ''processing''
         \<and> approvalItems (snd (processIncomingEmail env s u d)) = approvalItems s
         \<and> escalationQueue (snd (processIncomingEmail env s u d)) = escalationQueue s"
proof -
  obtain email s1 where ce: "createEmail s u d ''processing'' = (email, s1)"
    by (cases "createEmail s u d ''processing''") auto
  obtain r where sc: "sentimentCheck (analyzeSentiment env (ed_body d)) = (False, r)"
    using nosent by (cases "sentimentCheck (analyzeSentiment env (ed_body d))") auto
  define s2 where "s2 = updateEmail s1 (em_id email)
               (\<lambda>e. e\<lparr>em_classification := Some (cr_classification c),
                       em_confidence := Some (cr_confidence c),
                       em_classificationReasoning := Some (cr_reasoning c)\<rparr>)"
  note c1 = createEmail_effect [OF ce]
  have rules2: "autoResponderRules s2 = autoResponderRules s"
    and set2: "getSystemSettings s2 u = getSystemSettings s u"
    using c1 by (simp_all add: s2_def getSystemSettings_def)
  have rule2: "findMatchingRule s2 u (cr_classification c) (cr_confidence c) = Some rule"
    using findMatchingRule_rules [OF rules2] rule by simp
  have appr2: "approvalRequiredOf (getSystemSettings s2 u)"
    using appr set2 by simp
  have run: "processIncomingEmail env s u d =
               (Inl (ReferenceError ''responseContext is not defined''), s2)"
    unfolding processIncomingEmail_classified [OF cls ce] sc
      routeClassified_continue [OF conf cat] s2_def [symmetric]
    by (rule routeByRule_approval [OF rule2 appr2])
  have st: "em_status (createdMessage s s2) = ''processing''"
    using c1 by (simp add: createdMessage_def s2_def nth_append)
  show ?thesis
    using run st c1 by (simp add: s2_def)
qed

subsection \<open>Evaluation at the example inputs\<close>

lemmas pipeline_defs =
  processIncomingEmail_def afterCreateEmail_def createEmail_def classifyEmail_def
  classifyEmail_try_def
  routeClassified_def routeByRule_def findMatchingRule_def getAutoResponderRules_def
  getSystemSettings_def approvalRequiredOf_def executeAutomation_def runHandler_def
  generateProposedResponse_def sendEmpathicAutoResponse_def queueForApproval_def
  escalateEmail_def updateEmail_def updateAutoResponderRule_def createEscalationQueue_def
  createActivityLog_def createAutomationApprovalItem_def resolveIdentifier_def
  processIncomingEmail_scope_def sentimentCheck_def truthy_def orDefault_def orNumber_def

lemmas example_defs =
  exampleEnv_def exampleClassification_def exampleSentiment_def exampleData_def
  exampleRule_def exampleState_def calmEnv_def mixedSentimentEnv_def automationState_def
  approvalState_def lowConfidenceEnv_def frustratedEnv_def angryEnv_def blockingEnv_def
  noRuleState_def generalRuleState_def

lemma valid_anna: "isValidEmailForProduction ''anna@shop.org''"
  by (simp add: isValidEmailForProduction_def blockedPatterns_def toLowerCase_def
      toLowerChar_def endsWith_def isDigit_def)

lemma calm_classification:
  "classifyEmail calmEnv (ed_body exampleData) (ed_subject exampleData) (Some ''account-1'')
     = Inr \<lparr>cr_classification = ''order_status'', cr_confidence = 82,
            cr_reasoning = ''Vector-enhanced: customer asks about an order'',
            cr_priority = Some medium, cr_priorityReasoning = Some ''standard request''\<rparr>"
  by (simp add: classifyEmail_def classifyEmail_try_def example_defs truthy_def orDefault_def)

lemma calm_sentiment:
  "\<not> fst (sentimentCheck (analyzeSentiment calmEnv (ed_body exampleData)))"
  by (simp add: sentimentCheck_def example_defs)

lemma mixed_run:
  "processIncomingEmail mixedSentimentEnv automationState ''account-1'' exampleData =
     (Inr \<lparr>pe_id = 0, pe_classification = ''order_status'', pe_confidence = 82,
           pe_autoResponseSent = True, pe_escalated = False,
           pe_ruleUsed = Some ''Standard reply'', pe_awaitingApproval = None\<rparr>,
      \<lparr>emails =
         [\<lparr>em_id = 0, em_userId = ''account-1'', em_fromEmail = ''anna@shop.org'',
           em_toEmail = ''support@store.org'', em_subject = ''Order question'',
           em_body = ''Where is my order #12345?'', em_status = ''resolved'',
           em_messageId = Some ''msg-1'', em_classification = Some ''order_status'',
           em_confidence = Some 82,
           em_classificationReasoning = Some ''Vector-enhanced: customer asks about an order'',
           em_escalationReason = None, em_isResponded = True,
           em_aiResponse = Some ''We are looking into it.'', em_awaitingApproval = False,
           em_ruleId = None\<rparr>],
       autoResponderRules = [(exampleRule ''order_status'')\<lparr>rule_triggerCount := Some 1\<rparr>],
       systemSettings = (\<lambda>userId. Some \<lparr>automationApprovalRequired = Some False\<rparr>),
       escalationQueue = [], approvalItems = [],
       activityLogs =
         [\<lparr>al_userId = ''account-1'', al_action = ''Sent automated reply'',
           al_type = ''email_processed'', al_executedBy = ''ai'',
           al_customerEmail = ''anna@shop.org'',
           al_details = ''AI automatically sent order_status response using rule: Standard reply'',
           al_status = ''completed''\<rparr>],
       deliveries =
         [\<lparr>dl_userId = ''account-1'', dl_to = ''anna@shop.org'',
           dl_subject = ''Re: Order question'',
           dl_html = ''Thank you for your message.'' @ newline @ newline
                     @ ''Your support agent''\<rparr>]\<rparr>)"
  by (simp add: pipeline_defs example_defs valid_anna Let_def)

lemma calm_run:
  "snd (processIncomingEmail calmEnv automationState ''account-1'' exampleData) =
      \<lparr>emails =
         [\<lparr>em_id = 0, em_userId = ''account-1'', em_fromEmail = ''anna@shop.org'',
           em_toEmail = ''support@store.org'', em_subject = ''Order question'',
           em_body = ''Where is my order #12345?'', em_status = ''resolved'',
           em_messageId = Some ''msg-1'', em_classification = Some ''order_status'',
           em_confidence = Some 82,
           em_classificationReasoning = Some ''Vector-enhanced: customer asks about an order'',
           em_escalationReason = None, em_isResponded = True,
           em_aiResponse = Some ''We are looking into it.'', em_awaitingApproval = False,
           em_ruleId = None\<rparr>],
       autoResponderRules = [(exampleRule ''order_status'')\<lparr>rule_triggerCount := Some 1\<rparr>],
       systemSettings = (\<lambda>userId. Some \<lparr>automationApprovalRequired = Some False\<rparr>),
       escalationQueue = [], approvalItems = [],
       activityLogs =
         [\<lparr>al_userId = ''account-1'', al_action = ''Sent automated reply'',
           al_type = ''email_processed'', al_executedBy = ''ai'',
           al_customerEmail = ''anna@shop.org'',
           al_details = ''AI automatically sent order_status response using rule: Standard reply'',
           al_status = ''completed''\<rparr>],
       deliveries =
         [\<lparr>dl_userId = ''account-1'', dl_to = ''anna@shop.org'',
           dl_subject = ''Re: Order question'',
           dl_html = ''Thank you for your message.'' @ newline @ newline
                     @ ''Your support agent''\<rparr>]\<rparr>"
  by (simp add: pipeline_defs example_defs valid_anna Let_def)

theorem low_confidence_escalates_witness:
  "classifyEmail lowConfidenceEnv (ed_body exampleData) (ed_subject exampleData)
       (Some ''account-1'')
     = Inr \<lparr>cr_classification = ''general'', cr_confidence = 45,
            cr_reasoning = ''Vector-enhanced: customer asks about an order'',
            cr_priority = Some medium, cr_priorityReasoning = Some ''standard request''\<rparr>
   \<and> \<not> fst (sentimentCheck (analyzeSentiment lowConfidenceEnv (ed_body exampleData)))
   \<and> (\<exists>p s'. processIncomingEmail lowConfidenceEnv approvalState ''account-1'' exampleData
                 = (Inr p, s')
          \<and> pe_escalated p
          \<and> em_status (createdMessage approvalState s') = ''escalated''
          \<and> em_escalationReason (createdMessage approvalState s')
              = Some ''Low confidence classification (45%) or complex inquiry requiring human review'')"
proof -
  let ?c = "\<lparr>cr_classification = ''general'', cr_confidence = 45,
            cr_reasoning = ''Vector-enhanced: customer asks about an order'',
            cr_priority = Some medium, cr_priorityReasoning = Some ''standard request''\<rparr>"
  have h1: "classifyEmail lowConfidenceEnv (ed_body exampleData) (ed_subject exampleData)
              (Some ''account-1'') = Inr ?c"
    by (simp add: classifyEmail_def classifyEmail_try_def example_defs truthy_def orDefault_def)
  have h2: "\<not> fst (sentimentCheck (analyzeSentiment lowConfidenceEnv (ed_body exampleData)))"
    by (simp add: sentimentCheck_def example_defs)
  have h3: "cr_confidence ?c < 60 \<or> cr_classification ?c = ''escalation''"
    by simp
  have n: "numberToString 45 = ''45''"
    by (simp add: numberToString_def digitsOf.simps)
  from low_confidence_escalates [OF h1 h2 h3, of approvalState] h1 h2
  show ?thesis by (auto simp: n)
qed

subsection \<open>Escalation on negative sentiment\<close>

text \<open>
  Claim C3, as stated, asks for an escalation whenever the negative score is above 85 and
  the confidence of the assessment above 80. The check reads the label of the assessment
  first: with the label \<^verbatim>\<open>MIXED\<close>, negative score 90 and confidence 85 (classification
  \<^verbatim>\<open>order_status\<close> with confidence 82, an active rule, approval switched off) the
  Message is answered automatically and ends \<^verbatim>\<open>resolved\<close>; nothing is escalated.
\<close>

theorem sentiment_label_gates_escalation:
  "analyzeSentiment mixedSentimentEnv (ed_body exampleData)
     = Inr \<lparr>sa_sentiment = ''MIXED'', sa_negative = Some 90, sa_confidence = Some 85\<rparr>
   \<and> pe_escalated (projr (fst (processIncomingEmail mixedSentimentEnv automationState
          ''account-1'' exampleData))) = False
   \<and> pe_autoResponseSent (projr (fst (processIncomingEmail mixedSentimentEnv automationState
          ''account-1'' exampleData))) = True
   \<and> map em_status (emails (snd (processIncomingEmail mixedSentimentEnv automationState
          ''account-1'' exampleData))) = [''resolved'']
   \<and> escalationQueue (snd (processIncomingEmail mixedSentimentEnv automationState
          ''account-1'' exampleData)) = []"
  unfolding mixed_run by (simp add: example_defs)

text \<open>
  Claim C3, amended. The sentiment check triggers exactly when the sentiment service answers
  with the label \<^verbatim>\<open>NEGATIVE\<close> and either the negative score is above 75 with confidence
  above 90, or the negative score is above 85 with confidence above 80. When it triggers,
  the invocation returns with \<^verbatim>\<open>escalated: true\<close> whatever the classification is, the
  Message has the status \<^verbatim>\<open>escalated\<close>, no delivery is attempted, and the priority of
  the escalation is \<^verbatim>\<open>urgent\<close> in the first case and \<^verbatim>\<open>high\<close> otherwise.
\<close>

theorem negative_sentiment_escalates:
  "(fst (sentimentCheck (analyzeSentiment env (ed_body d))) \<longleftrightarrow>
      (\<exists>sr. analyzeSentiment env (ed_body d) = Inr sr \<and> sa_sentiment sr = ''NEGATIVE''
         \<and> ((orNumber (sa_negative sr) 0 > 75 \<and> orNumber (sa_confidence sr) 0 > 90)
            \<or> (orNumber (sa_negative sr) 0 > 85 \<and> orNumber (sa_confidence sr) 0 > 80))))
   \<and> (analyzeSentiment env (ed_body d) = Inr sr \<and> sa_sentiment sr = ''NEGATIVE''
        \<and> ((orNumber (sa_negative sr) 0 > 75 \<and> orNumber (sa_confidence sr) 0 > 90)
           \<or> (orNumber (sa_negative sr) 0 > 85 \<and> orNumber (sa_confidence sr) 0 > 80))
      \<longrightarrow> (\<exists>p s'. processIncomingEmail env s u d = (Inr p, s')
             \<and> pe_escalated p \<and> \<not> pe_autoResponseSent p
             \<and> em_status (createdMessage s s') = ''escalated''
             \<and> eq_emailId (last (escalationQueue s')) = length (emails s)
             \<and> eq_priority (last (escalationQueue s'))
                 = (if orNumber (sa_negative sr) 0 > 75 \<and> orNumber (sa_confidence sr) 0 > 90
                    then urgent else high)
             \<and> startsWith (eq_reason (last (escalationQueue s')))
                  ''Negative sentiment detected''
             \<and> deliveries s' = deliveries s))"
proof (intro conjI impI)
  show "fst (sentimentCheck (analyzeSentiment env (ed_body d))) \<longleftrightarrow>
      (\<exists>sr. analyzeSentiment env (ed_body d) = Inr sr \<and> sa_sentiment sr = ''NEGATIVE''
         \<and> ((orNumber (sa_negative sr) 0 > 75 \<and> orNumber (sa_confidence sr) 0 > 90)
            \<or> (orNumber (sa_negative sr) 0 > 85 \<and> orNumber (sa_confidence sr) 0 > 80)))"
    by (rule sentimentCheck_triggers)
next
  assume h: "analyzeSentiment env (ed_body d) = Inr sr \<and> sa_sentiment sr = ''NEGATIVE''
        \<and> ((orNumber (sa_negative sr) 0 > 75 \<and> orNumber (sa_confidence sr) 0 > 90)
           \<or> (orNumber (sa_negative sr) 0 > 85 \<and> orNumber (sa_confidence sr) 0 > 80))"
  then have an: "analyzeSentiment env (ed_body d) = Inr sr"
    and neg: "sa_sentiment sr = ''NEGATIVE''" by simp_all
  let ?A = "orNumber (sa_negative sr) 0 > 75 \<and> orNumber (sa_confidence sr) 0 > 90"
  define pr where "pr = (if ?A then urgent else high)"
  have "\<exists>r. sentimentCheck (Inr sr) = (True, r)
          \<and> (if str_includes r ''Very angry'' then urgent else high) = pr"
  proof (cases ?A)
    case True
    then have "sentimentCheck (Inr sr) =
           (True, ''Very angry customer detected ('' @ numberToString (orNumber (sa_negative sr) 0)
                  @ ''% negative sentiment with ''
                  @ numberToString (orNumber (sa_confidence sr) 0) @ ''% confidence)'')"
      using neg by (intro sentimentCheck_very_angry) simp_all
    moreover have "str_includes (''Very angry customer detected (''
                  @ (numberToString (orNumber (sa_negative sr) 0)
                  @ ''% negative sentiment with ''
                  @ numberToString (orNumber (sa_confidence sr) 0) @ ''% confidence)'')) ''Very angry''"
      by (rule very_angry_included)
    ultimately show ?thesis using True unfolding pr_def by simp
  next
    case False
    with h have B: "orNumber (sa_negative sr) 0 > 85" "orNumber (sa_confidence sr) 0 > 80"
      by auto
    have "sentimentCheck (Inr sr) =
           (True, ''Highly frustrated customer detected (''
                  @ numberToString (orNumber (sa_negative sr) 0) @ ''% negative sentiment)'')"
      by (rule sentimentCheck_highly_frustrated [OF neg False B])
    moreover note highly_frustrated_not_very_angry [of "orNumber (sa_negative sr) 0"]
    ultimately show ?thesis using False unfolding pr_def by simp
  qed
  then obtain r where sc: "sentimentCheck (analyzeSentiment env (ed_body d)) = (True, r)"
    and pri: "(if str_includes r ''Very angry'' then urgent else high) = pr"
    using an by auto
  from sentiment_escalation_run [OF sc, of s u]
  obtain p s' where run: "processIncomingEmail env s u d = (Inr p, s')"
    and f: "pe_escalated p" "\<not> pe_autoResponseSent p"
      "em_status (createdMessage s s') = ''escalated''"
      "eq_emailId (last (escalationQueue s')) = length (emails s)"
      "eq_priority (last (escalationQueue s'))
         = (if str_includes r ''Very angry'' then urgent else high)"
      "eq_reason (last (escalationQueue s')) = ''Negative sentiment detected - '' @ r"
      "deliveries s' = deliveries s"
    by blast
  have sw: "startsWith (eq_reason (last (escalationQueue s'))) ''Negative sentiment detected''"
    unfolding f(6) by simp
  show "\<exists>p s'. processIncomingEmail env s u d = (Inr p, s')
             \<and> pe_escalated p \<and> \<not> pe_autoResponseSent p
             \<and> em_status (createdMessage s s') = ''escalated''
             \<and> eq_emailId (last (escalationQueue s')) = length (emails s)
             \<and> eq_priority (last (escalationQueue s'))
                 = (if orNumber (sa_negative sr) 0 > 75 \<and> orNumber (sa_confidence sr) 0 > 90
                    then urgent else high)
             \<and> startsWith (eq_reason (last (escalationQueue s')))
                  ''Negative sentiment detected''
             \<and> deliveries s' = deliveries s"
    using run f(1-4) f(7) sw f(5) pri unfolding pr_def
    by (intro exI [of _ p] exI [of _ s']) simp
qed

theorem negative_sentiment_escalates_witness:
  "analyzeSentiment frustratedEnv (ed_body exampleData)
     = Inr (exampleSentiment ''NEGATIVE'' 90 85)
   \<and> sa_sentiment (exampleSentiment ''NEGATIVE'' 90 85) = ''NEGATIVE''
   \<and> orNumber (sa_negative (exampleSentiment ''NEGATIVE'' 90 85)) 0 > 85
   \<and> orNumber (sa_confidence (exampleSentiment ''NEGATIVE'' 90 85)) 0 > 80
   \<and> (\<exists>p s'. processIncomingEmail frustratedEnv automationState ''account-1'' exampleData
                 = (Inr p, s')
          \<and> pe_escalated p
          \<and> em_status (createdMessage automationState s') = ''escalated''
          \<and> eq_priority (last (escalationQueue s')) = high
          \<and> deliveries s' = deliveries automationState)
   \<and> analyzeSentiment angryEnv (ed_body exampleData)
     = Inr (exampleSentiment ''NEGATIVE'' 92 95)
   \<and> (\<exists>p s'. processIncomingEmail angryEnv automationState ''account-1'' exampleData
                 = (Inr p, s')
          \<and> pe_escalated p
          \<and> em_status (createdMessage automationState s') = ''escalated''
          \<and> eq_priority (last (escalationQueue s')) = urgent
          \<and> deliveries s' = deliveries automationState)"
proof -
  have a1: "analyzeSentiment frustratedEnv (ed_body exampleData)
              = Inr (exampleSentiment ''NEGATIVE'' 90 85)"
    by (simp add: frustratedEnv_def exampleEnv_def)
  have a2: "analyzeSentiment angryEnv (ed_body exampleData)
              = Inr (exampleSentiment ''NEGATIVE'' 92 95)"
    by (simp add: angryEnv_def exampleEnv_def)
  have v1: "sa_sentiment (exampleSentiment ''NEGATIVE'' 90 85) = ''NEGATIVE''"
    "orNumber (sa_negative (exampleSentiment ''NEGATIVE'' 90 85)) 0 = 90"
    "orNumber (sa_confidence (exampleSentiment ''NEGATIVE'' 90 85)) 0 = 85"
    by (simp_all add: exampleSentiment_def orNumber_def)
  have v2: "sa_sentiment (exampleSentiment ''NEGATIVE'' 92 95) = ''NEGATIVE''"
    "orNumber (sa_negative (exampleSentiment ''NEGATIVE'' 92 95)) 0 = 92"
    "orNumber (sa_confidence (exampleSentiment ''NEGATIVE'' 92 95)) 0 = 95"
    by (simp_all add: exampleSentiment_def orNumber_def)
  have r1: "\<exists>p s'. processIncomingEmail frustratedEnv automationState ''account-1'' exampleData
                 = (Inr p, s')
          \<and> pe_escalated p
          \<and> em_status (createdMessage automationState s') = ''escalated''
          \<and> eq_priority (last (escalationQueue s')) = high
          \<and> deliveries s' = deliveries automationState"
    using negative_sentiment_escalates
      [of frustratedEnv exampleData "exampleSentiment ''NEGATIVE'' 90 85" automationState
        "''account-1''"] a1
    unfolding v1 by auto
  have r2: "\<exists>p s'. processIncomingEmail angryEnv automationState ''account-1'' exampleData
                 = (Inr p, s')
          \<and> pe_escalated p
          \<and> em_status (createdMessage automationState s') = ''escalated''
          \<and> eq_priority (last (escalationQueue s')) = urgent
          \<and> deliveries s' = deliveries automationState"
    using negative_sentiment_escalates
      [of angryEnv exampleData "exampleSentiment ''NEGATIVE'' 92 95" automationState
        "''account-1''"] a2
    unfolding v2 by auto
  show ?thesis
    using a1 a2 r1 r2 by (simp add: v1)
qed

subsection \<open>Rule resolution\<close>

lemma findMatchingRule_cases:
  "findMatchingRule s userId classification confidence =
     (case find (\<lambda>rule. rule_classification rule = classification \<and> rule_isActive rule)
             (getAutoResponderRules s userId) of
        Some rule \<Rightarrow> Some rule
      | None \<Rightarrow>
          if confidence < 70
          then find (\<lambda>rule. rule_classification rule = ''general'' \<and> rule_isActive rule)
                 (getAutoResponderRules s userId)
          else None)"
  by (simp add: findMatchingRule_def Let_def split: option.split)

lemma findMatchingRule_Some:
  assumes "findMatchingRule s userId classification confidence = Some rule"
  shows "rule \<in> set (autoResponderRules s) \<and> rule_userId rule = userId \<and> rule_isActive rule
         \<and> (rule_classification rule = classification
            \<or> (confidence < 70 \<and> rule_classification rule = ''general''
               \<and> (\<forall>r \<in> set (getAutoResponderRules s userId).
                     \<not> (rule_classification r = classification \<and> rule_isActive r))))"
proof (cases "find (\<lambda>rule. rule_classification rule = classification \<and> rule_isActive rule)
                (getAutoResponderRules s userId)")
  case None
  with assms have lt: "confidence < 70"
    and g: "find (\<lambda>rule. rule_classification rule = ''general'' \<and> rule_isActive rule)
              (getAutoResponderRules s userId) = Some rule"
    by (auto simp: findMatchingRule_cases split: if_splits)
  from find_Some_member [OF g] None lt show ?thesis
    by (auto simp: getAutoResponderRules_def find_None_iff)
next
  case (Some r)
  with assms have "r = rule" by (simp add: findMatchingRule_cases)
  with find_Some_member [OF Some] show ?thesis
    by (auto simp: getAutoResponderRules_def)
qed

lemma findMatchingRule_no_fallback:
  "70 \<le> confidence \<Longrightarrow>
     findMatchingRule s userId classification confidence =
       find (\<lambda>rule. rule_classification rule = classification \<and> rule_isActive rule)
         (getAutoResponderRules s userId)"
  by (simp add: findMatchingRule_cases split: option.split)

lemma no_rule_escalates:
  assumes cls: "classifyEmail env (ed_body d) (ed_subject d) (Some u) = Inr c"
    and nosent: "\<not> fst (sentimentCheck (analyzeSentiment env (ed_body d)))"
    and conf: "\<not> cr_confidence c < 60" and cat: "cr_classification c \<noteq> ''escalation''"
    and rule: "findMatchingRule s u (cr_classification c) (cr_confidence c) = None"
  shows "\<exists>p s'. processIncomingEmail env s u d = (Inr p, s')
           \<and> pe_escalated p \<and> \<not> pe_autoResponseSent p
           \<and> em_status (createdMessage s s') = ''escalated''
           \<and> em_escalationReason (createdMessage s s') = Some ''No matching auto-responder rule''
           \<and> eq_emailId (last (escalationQueue s')) = length (emails s)
           \<and> eq_reason (last (escalationQueue s')) = ''No matching auto-responder rule''
           \<and> deliveries s' = deliveries s"
proof -
  obtain email s1 where ce: "createEmail s u d ''processing'' = (email, s1)"
    by (cases "createEmail s u d ''processing''") auto
  obtain r where sc: "sentimentCheck (analyzeSentiment env (ed_body d)) = (False, r)"
    using nosent by (cases "sentimentCheck (analyzeSentiment env (ed_body d))") auto
  define s2 where "s2 = updateEmail s1 (em_id email)
               (\<lambda>e. e\<lparr>em_classification := Some (cr_classification c),
                       em_confidence := Some (cr_confidence c),
                       em_classificationReasoning := Some (cr_reasoning c)\<rparr>)"
  note c1 = createEmail_effect [OF ce]
  have rules2: "autoResponderRules s2 = autoResponderRules s"
    using c1 by (simp add: s2_def)
  have rule2: "findMatchingRule s2 u (cr_classification c) (cr_confidence c) = None"
    using findMatchingRule_rules [OF rules2] rule by simp
  obtain p s' where esc:
    "escalateEmail s2 (em_id email) u c (Some ''No matching auto-responder rule'') = (p, s')"
    by (cases "escalateEmail s2 (em_id email) u c (Some ''No matching auto-responder rule'')")
      auto
  have run: "processIncomingEmail env s u d = (Inr p, s')"
    unfolding processIncomingEmail_classified [OF cls ce] sc
      routeClassified_continue [OF conf cat] s2_def [symmetric]
      routeByRule_no_rule [OF rule2] esc by simp
  note e1 = escalateEmail_effect [OF esc]
  have ems: "emails s2 = map (\<lambda>e. if em_id e = em_id email
                 then e\<lparr>em_classification := Some (cr_classification c),
                       em_confidence := Some (cr_confidence c),
                       em_classificationReasoning := Some (cr_reasoning c)\<rparr> else e)
               (emails s @ [email])"
    using c1 by (simp add: s2_def)
  have st: "em_status (createdMessage s s') = ''escalated''"
    "em_escalationReason (createdMessage s s') = Some ''No matching auto-responder rule''"
    using c1 e1 ems by (simp_all add: createdMessage_def nth_append orDefault_def)
  have dl: "deliveries s' = deliveries s"
    using e1 c1 by (simp add: s2_def)
  show ?thesis
    using run e1 c1 st dl by (simp add: orDefault_def)
qed

text \<open>
  Claim C6. The matching rule is the first active rule of the account whose category equals
  the category of the classification. When there is none and the confidence is below 70,
  it is the first active rule of the category \<^verbatim>\<open>general\<close>; with a confidence of 70 or
  more this fallback is not used. When no rule resolves (and the Message was not escalated
  before the rule was looked up), the invocation returns with \<^verbatim>\<open>escalated: true\<close>, the
  Message has the status \<^verbatim>\<open>escalated\<close> and the recorded reason is the text
  \<^verbatim>\<open>No matching auto-responder rule\<close>.
\<close>

theorem rule_resolution:
  "findMatchingRule s u category confidence =
     (case find (\<lambda>rule. rule_classification rule = category \<and> rule_isActive rule)
             (getAutoResponderRules s u) of
        Some rule \<Rightarrow> Some rule
      | None \<Rightarrow>
          if confidence < 70
          then find (\<lambda>rule. rule_classification rule = ''general'' \<and> rule_isActive rule)
                 (getAutoResponderRules s u)
          else None)
   \<and> (findMatchingRule s u category confidence = Some rule \<longrightarrow>
        rule \<in> set (autoResponderRules s) \<and> rule_userId rule = u \<and> rule_isActive rule
        \<and> (rule_classification rule = category
           \<or> (confidence < 70 \<and> rule_classification rule = ''general''
              \<and> (\<forall>r \<in> set (getAutoResponderRules s u).
                    \<not> (rule_classification r = category \<and> rule_isActive r)))))
   \<and> (70 \<le> confidence \<longrightarrow>
        findMatchingRule s u category confidence =
          find (\<lambda>rule. rule_classification rule = category \<and> rule_isActive rule)
            (getAutoResponderRules s u))
   \<and> (classifyEmail env (ed_body d) (ed_subject d) (Some u) = Inr c
        \<and> \<not> fst (sentimentCheck (analyzeSentiment env (ed_body d)))
        \<and> \<not> cr_confidence c < 60 \<and> cr_classification c \<noteq> ''escalation''
        \<and> findMatchingRule s u (cr_classification c) (cr_confidence c) = None
      \<longrightarrow> (\<exists>p s'. processIncomingEmail env s u d = (Inr p, s')
             \<and> pe_escalated p \<and> \<not> pe_autoResponseSent p
             \<and> em_status (createdMessage s s') = ''escalated''
             \<and> em_escalationReason (createdMessage s s')
                 = Some ''No matching auto-responder rule''
             \<and> eq_emailId (last (escalationQueue s')) = length (emails s)
             \<and> eq_reason (last (escalationQueue s')) = ''No matching auto-responder rule''
             \<and> deliveries s' = deliveries s))"
proof (intro conjI impI)
  show "findMatchingRule s u category confidence =
     (case find (\<lambda>rule. rule_classification rule = category \<and> rule_isActive rule)
             (getAutoResponderRules s u) of
        Some rule \<Rightarrow> Some rule
      | None \<Rightarrow>
          if confidence < 70
          then find (\<lambda>rule. rule_classification rule = ''general'' \<and> rule_isActive rule)
                 (getAutoResponderRules s u)
          else None)"
    by (rule findMatchingRule_cases)
next
  assume "findMatchingRule s u category confidence = Some rule"
  from findMatchingRule_Some [OF this]
  show "rule \<in> set (autoResponderRules s)" "rule_userId rule = u" "rule_isActive rule"
    "rule_classification rule = category
       \<or> (confidence < 70 \<and> rule_classification rule = ''general''
          \<and> (\<forall>r \<in> set (getAutoResponderRules s u).
                \<not> (rule_classification r = category \<and> rule_isActive r)))"
    by blast+
next
  assume "70 \<le> confidence"
  then show "findMatchingRule s u category confidence =
          find (\<lambda>rule. rule_classification rule = category \<and> rule_isActive rule)
            (getAutoResponderRules s u)"
    by (rule findMatchingRule_no_fallback)
next
  assume h: "classifyEmail env (ed_body d) (ed_subject d) (Some u) = Inr c
        \<and> \<not> fst (sentimentCheck (analyzeSentiment env (ed_body d)))
        \<and> \<not> cr_confidence c < 60 \<and> cr_classification c \<noteq> ''escalation''
        \<and> findMatchingRule s u (cr_classification c) (cr_confidence c) = None"
  then have h1: "classifyEmail env (ed_body d) (ed_subject d) (Some u) = Inr c"
    and h2: "\<not> fst (sentimentCheck (analyzeSentiment env (ed_body d)))"
    and h3: "\<not> cr_confidence c < 60" and h4: "cr_classification c \<noteq> ''escalation''"
    and h5: "findMatchingRule s u (cr_classification c) (cr_confidence c) = None"
    by blast+
  show "\<exists>p s'. processIncomingEmail env s u d = (Inr p, s')
             \<and> pe_escalated p \<and> \<not> pe_autoResponseSent p
             \<and> em_status (createdMessage s s') = ''escalated''
             \<and> em_escalationReason (createdMessage s s')
                 = Some ''No matching auto-responder rule''
             \<and> eq_emailId (last (escalationQueue s')) = length (emails s)
             \<and> eq_reason (last (escalationQueue s')) = ''No matching auto-responder rule''
             \<and> deliveries s' = deliveries s"
    by (rule no_rule_escalates [OF h1 h2 h3 h4 h5])
qed

theorem rule_resolution_witness:
  "findMatchingRule generalRuleState ''account-1'' ''return_request'' 65
     = Some (exampleRule ''general'')
   \<and> exampleRule ''general'' \<in> set (autoResponderRules generalRuleState)
   \<and> rule_isActive (exampleRule ''general'')
   \<and> (70 :: int) \<le> 82
   \<and> findMatchingRule generalRuleState ''account-1'' ''return_request'' 82 = None
   \<and> classifyEmail calmEnv (ed_body exampleData) (ed_subject exampleData) (Some ''account-1'')
       = Inr \<lparr>cr_classification = ''order_status'', cr_confidence = 82,
              cr_reasoning = ''Vector-enhanced: customer asks about an order'',
              cr_priority = Some medium, cr_priorityReasoning = Some ''standard request''\<rparr>
   \<and> \<not> fst (sentimentCheck (analyzeSentiment calmEnv (ed_body exampleData)))
   \<and> findMatchingRule noRuleState ''account-1'' ''order_status'' 82 = None
   \<and> (\<exists>p s'. processIncomingEmail calmEnv noRuleState ''account-1'' exampleData = (Inr p, s')
          \<and> pe_escalated p
          \<and> em_status (createdMessage noRuleState s') = ''escalated''
          \<and> em_escalationReason (createdMessage noRuleState s')
              = Some ''No matching auto-responder rule'')"
proof -
  let ?c = "\<lparr>cr_classification = ''order_status'', cr_confidence = 82,
              cr_reasoning = ''Vector-enhanced: customer asks about an order'',
              cr_priority = Some medium, cr_priorityReasoning = Some ''standard request''\<rparr>"
  have f1: "findMatchingRule generalRuleState ''account-1'' ''return_request'' 65
              = Some (exampleRule ''general'')"
    by (simp add: findMatchingRule_def getAutoResponderRules_def example_defs)
  have f2: "findMatchingRule generalRuleState ''account-1'' ''return_request'' 82 = None"
    by (simp add: findMatchingRule_def getAutoResponderRules_def example_defs)
  have h1: "classifyEmail calmEnv (ed_body exampleData) (ed_subject exampleData)
              (Some ''account-1'') = Inr ?c"
    by (simp add: classifyEmail_def classifyEmail_try_def example_defs truthy_def orDefault_def)
  have h2: "\<not> fst (sentimentCheck (analyzeSentiment calmEnv (ed_body exampleData)))"
    by (simp add: sentimentCheck_def example_defs)
  have h3: "findMatchingRule noRuleState ''account-1'' ''order_status'' 82 = None"
    by (simp add: findMatchingRule_def getAutoResponderRules_def example_defs)
  note a = rule_resolution [of generalRuleState "''account-1''" "''return_request''" 65
      "exampleRule ''general''" calmEnv exampleData ?c]
  note b = rule_resolution [of noRuleState "''account-1''" "''order_status''" 82
      "exampleRule ''general''" calmEnv exampleData ?c]
  have m: "exampleRule ''general'' \<in> set (autoResponderRules generalRuleState)"
    "rule_isActive (exampleRule ''general'')"
    using a f1 by simp_all
  have r: "\<exists>p s'. processIncomingEmail calmEnv noRuleState ''account-1'' exampleData = (Inr p, s')
          \<and> pe_escalated p
          \<and> em_status (createdMessage noRuleState s') = ''escalated''
          \<and> em_escalationReason (createdMessage noRuleState s')
              = Some ''No matching auto-responder rule''"
    using b h1 h2 h3 by auto
  show ?thesis
    using f1 f2 h1 h2 h3 m r by simp
qed

subsection \<open>The checks of sendEmpathicAutoResponse before a delivery\<close>

text \<open>
  Claim C7. When the recipient address matches one of the blocked patterns, or the content
  validation throws or does not approve the content, \<^verbatim>\<open>sendEmpathicAutoResponse\<close> returns
  false and the delivery channel is not called (the state, with its record of deliveries,
  is unchanged). A delivery is attempted only when the address matches no blocked pattern
  and the validation has approved the content; it is then the one message to that address.
\<close>

theorem send_blocked_without_delivery:
  "(list_ex (\<lambda>pattern. pattern customerEmail) blockedPatterns
      \<or> validateResponse env responseContent userId = Inl err
      \<or> (\<exists>v. validateResponse env responseContent userId = Inr v \<and> \<not> sv_approved v)
    \<longrightarrow> sendEmpathicAutoResponse env s userId customerEmail responseContent originalSubject
          = (False, s))
   \<and> (deliveries (snd (sendEmpathicAutoResponse env s userId customerEmail responseContent
          originalSubject)) \<noteq> deliveries s
    \<longrightarrow> \<not> list_ex (\<lambda>pattern. pattern customerEmail) blockedPatterns
        \<and> (\<exists>v. validateResponse env responseContent userId = Inr v \<and> sv_approved v)
        \<and> deliveries (snd (sendEmpathicAutoResponse env s userId customerEmail
              responseContent originalSubject))
            = deliveries s @ [\<lparr>dl_userId = userId, dl_to = customerEmail,
                 dl_subject = ''Re: '' @ originalSubject, dl_html = responseContent\<rparr>])"
  by (auto simp: sendEmpathicAutoResponse_def isValidEmailForProduction_def Let_def
      split: sum.splits)

lemma blocked_noreply: "list_ex (\<lambda>pattern. pattern ''noreply@shop.org'') blockedPatterns"
  by (simp add: blockedPatterns_def toLowerCase_def toLowerChar_def endsWith_def isDigit_def)

lemma not_blocked_anna: "\<not> list_ex (\<lambda>pattern. pattern ''anna@shop.org'') blockedPatterns"
  using valid_anna by (simp add: isValidEmailForProduction_def)

theorem send_blocked_without_delivery_witness:
  "list_ex (\<lambda>pattern. pattern ''noreply@shop.org'') blockedPatterns
   \<and> sendEmpathicAutoResponse calmEnv automationState ''account-1'' ''noreply@shop.org''
         ''Thank you.'' ''Order question'' = (False, automationState)
   \<and> validateResponse blockingEnv ''Thank you.'' ''account-1''
       = Inr \<lparr>sv_approved = False, sv_blockReason = Some ''content moderation''\<rparr>
   \<and> sendEmpathicAutoResponse blockingEnv automationState ''account-1'' ''anna@shop.org''
         ''Thank you.'' ''Order question'' = (False, automationState)
   \<and> validateResponse failingEnv ''Thank you.'' ''account-1'' = Inl (Thrown ''validation failed'')
   \<and> sendEmpathicAutoResponse failingEnv automationState ''account-1'' ''anna@shop.org''
         ''Thank you.'' ''Order question'' = (False, automationState)
   \<and> deliveries (snd (sendEmpathicAutoResponse calmEnv automationState ''account-1''
         ''anna@shop.org'' ''Thank you.'' ''Order question'')) \<noteq> deliveries automationState
   \<and> deliveries (snd (sendEmpathicAutoResponse calmEnv automationState ''account-1''
         ''anna@shop.org'' ''Thank you.'' ''Order question''))
       = deliveries automationState @
           [\<lparr>dl_userId = ''account-1'', dl_to = ''anna@shop.org'',
             dl_subject = ''Re: Order question'', dl_html = ''Thank you.''\<rparr>]"
proof -
  have v1: "validateResponse blockingEnv ''Thank you.'' ''account-1''
       = Inr \<lparr>sv_approved = False, sv_blockReason = Some ''content moderation''\<rparr>"
    by (simp add: blockingEnv_def)
  have v2: "validateResponse failingEnv ''Thank you.'' ''account-1''
       = Inl (Thrown ''validation failed'')"
    by (simp add: failingEnv_def)
  have d: "deliveries (snd (sendEmpathicAutoResponse calmEnv automationState ''account-1''
         ''anna@shop.org'' ''Thank you.'' ''Order question'')) \<noteq> deliveries automationState"
    by (simp add: sendEmpathicAutoResponse_def valid_anna calmEnv_def exampleEnv_def Let_def)
  note t1 = send_blocked_without_delivery [of "''noreply@shop.org''" calmEnv "''Thank you.''"
      "''account-1''" "Thrown ''validation failed''" automationState "''Order question''"]
  note t2 = send_blocked_without_delivery [of "''anna@shop.org''" blockingEnv "''Thank you.''"
      "''account-1''" "Thrown ''validation failed''" automationState "''Order question''"]
  note t3 = send_blocked_without_delivery [of "''anna@shop.org''" failingEnv "''Thank you.''"
      "''account-1''" "Thrown ''validation failed''" automationState "''Order question''"]
  note t4 = send_blocked_without_delivery [of "''anna@shop.org''" calmEnv "''Thank you.''"
      "''account-1''" "Thrown ''validation failed''" automationState "''Order question''"]
  have r1: "sendEmpathicAutoResponse calmEnv automationState ''account-1'' ''noreply@shop.org''
         ''Thank you.'' ''Order question'' = (False, automationState)"
    using t1 blocked_noreply by blast
  have r2: "sendEmpathicAutoResponse blockingEnv automationState ''account-1'' ''anna@shop.org''
         ''Thank you.'' ''Order question'' = (False, automationState)"
    using t2 v1 by simp
  have r3: "sendEmpathicAutoResponse failingEnv automationState ''account-1'' ''anna@shop.org''
         ''Thank you.'' ''Order question'' = (False, automationState)"
    using t3 v2 by simp
  have r4: "deliveries (snd (sendEmpathicAutoResponse calmEnv automationState ''account-1''
         ''anna@shop.org'' ''Thank you.'' ''Order question''))
       = deliveries automationState @
           [\<lparr>dl_userId = ''account-1'', dl_to = ''anna@shop.org'',
             dl_subject = ''Re: Order question'', dl_html = ''Thank you.''\<rparr>]"
    using t4 d by simp
  show ?thesis
    using blocked_noreply r1 v1 r2 v2 r3 d r4 by (intro conjI)
qed

subsection \<open>The status of the Message in the approval branch\<close>

text \<open>
  Claim C1 says that no path of \<^verbatim>\<open>processIncomingEmail\<close> leaves the Message with the
  status \<^verbatim>\<open>processing\<close>, the branch that requires approval included. Evaluated at a
  message that is classified \<^verbatim>\<open>order_status\<close> with confidence 82, with a calm sentiment,
  an active rule of that category and an account without settings (approval is then
  required): the branch throws the \<^verbatim>\<open>ReferenceError\<close> of \<^verbatim>\<open>responseContext\<close> before
  the approval item is created, and the Message keeps the status \<^verbatim>\<open>processing\<close>.
  (\<open>approval_required_throws\<close> shows the same for every input that reaches the branch,
  and \<open>processIncomingEmail_returns_terminal\<close> that an invocation that returns leaves the
  Message \<^verbatim>\<open>resolved\<close> or \<^verbatim>\<open>escalated\<close>.)
\<close>

theorem approval_branch_leaves_processing:
  "findMatchingRule approvalState ''account-1'' ''order_status'' 82
     = Some (exampleRule ''order_status'')
   \<and> approvalRequiredOf (getSystemSettings approvalState ''account-1'')
   \<and> fst (processIncomingEmail calmEnv approvalState ''account-1'' exampleData)
       = Inl (ReferenceError ''responseContext is not defined'')
   \<and> em_status (createdMessage approvalState
         (snd (processIncomingEmail calmEnv approvalState ''account-1'' exampleData)))
       = ''processing''
   \<and> approvalItems (snd (processIncomingEmail calmEnv approvalState ''account-1'' exampleData))
       = []"
proof -
  let ?c = "\<lparr>cr_classification = ''order_status'', cr_confidence = 82,
            cr_reasoning = ''Vector-enhanced: customer asks about an order'',
            cr_priority = Some medium, cr_priorityReasoning = Some ''standard request''\<rparr>"
  have rule: "findMatchingRule approvalState ''account-1'' ''order_status'' 82
                = Some (exampleRule ''order_status'')"
    by (simp add: findMatchingRule_def getAutoResponderRules_def example_defs)
  have appr: "approvalRequiredOf (getSystemSettings approvalState ''account-1'')"
    by (simp add: approvalRequiredOf_def getSystemSettings_def example_defs)
  have rule': "findMatchingRule approvalState ''account-1'' (cr_classification ?c)
                 (cr_confidence ?c) = Some (exampleRule ''order_status'')"
    using rule by simp
  have "approvalItems approvalState = []"
    by (simp add: example_defs)
  with approval_required_throws [OF calm_classification calm_sentiment _ _ rule' appr]
    rule appr
  show ?thesis by simp
qed

subsection \<open>Repeated submission of a message\<close>





























end
